theory Spec2Isabelle
  imports Main "HOL-Library.Word"
begin

unbundle bit_operations_syntax

section \<open>Values shared by all functions of epub.py\<close>

type_synonym byte = "8 word"

text \<open>
  Python's \<open>str | None\<close>, as \<open>Element.get\<close> and \<open>Element.text\<close> return it, is a
  \<open>string option\<close>. \<open>falsy v\<close> is Python's \<open>not v\<close> on such a value: true for
  \<open>None\<close> and for the empty string.
\<close>

definition falsy :: "string option \<Rightarrow> bool" where
  "falsy v = (case v of None \<Rightarrow> True | Some s \<Rightarrow> s = [])"

text \<open>
  Every \<open>raise\<close> of epub.py raises \<open>ValueError\<close> with a message of its own; one
  constructor stands for each raise site (the payload is the value the message
  interpolates). The library calls raise exceptions of their own, which epub.py
  catches only where it says so: \<open>ZipFile.getinfo\<close> and \<open>ZipFile.read\<close> raise
  \<open>KeyError\<close> for a name the archive does not hold; \<open>ZipFile.read\<close> raises
  \<open>BadZipFile\<close> when the local header or the CRC of the member disagrees with the
  directory, \<open>NotImplementedError\<close> for a compression method or flag it does not
  support, \<open>RuntimeError\<close> for an encrypted member, and others (\<open>EOFError\<close>,
  \<open>zlib.error\<close>) for damaged data; \<open>open(epub.filename, 'rb')\<close> raises \<open>TypeError\<close>
  when the archive was opened from a file object, so that \<open>epub.filename\<close> is \<open>None\<close>,
  and \<open>OSError\<close> when the file cannot be opened.
\<close>

datatype value_error =
    MimetypeNotFirst            \<comment> \<open>line 29\<close>
  | MimetypeCompressed          \<comment> \<open>line 34\<close>
  | MimetypeExtraFields         \<comment> \<open>line 37\<close>
  | MimetypeEncrypted           \<comment> \<open>line 40\<close>
  | MimetypeNotAscii            \<comment> \<open>line 45\<close>
  | InvalidZipMagic             \<comment> \<open>line 51\<close>
  | MimetypeNameMisplaced       \<comment> \<open>line 56\<close>
  | MimetypeContentMisplaced    \<comment> \<open>line 61\<close>
  | MissingContainer            \<comment> \<open>line 71\<close>
  | ContainerNotUtf8            \<comment> \<open>line 73\<close>
  | NoRootfilesElement          \<comment> \<open>line 81\<close>
  | NoPackageRootfile           \<comment> \<open>line 91\<close>
  | ContainerParseError string  \<comment> \<open>line 94\<close>
  | RootNotPackage              \<comment> \<open>line 102\<close>
  | MissingVersion              \<comment> \<open>line 106\<close>
  | MissingUniqueIdentifier     \<comment> \<open>line 112\<close>
  | OpfParseError string        \<comment> \<open>line 120\<close>
  | UniqueIdentifierUnmatched string  \<comment> \<open>line 163\<close>
  | MissingManifest             \<comment> \<open>line 175\<close>
  | ItemMissingId               \<comment> \<open>line 191\<close>
  | ItemMissingHref             \<comment> \<open>line 193\<close>
  | ItemMissingMediaType        \<comment> \<open>line 195\<close>
  | DuplicateHref string        \<comment> \<open>line 198\<close>
  | ManifestParseError string   \<comment> \<open>line 214\<close>
  | MissingSpine                \<comment> \<open>line 221\<close>
  | SpineMissingToc             \<comment> \<open>line 227\<close>
  | ItemrefMissingIdref         \<comment> \<open>line 240\<close>
  | DuplicateIdref string       \<comment> \<open>line 243\<close>
  | IdrefNotInManifest string   \<comment> \<open>line 247\<close>
  | NotContentDocument string   \<comment> \<open>line 255\<close>
  | SpineParseError string      \<comment> \<open>line 272\<close>
  | ReferenceMissingTypeOrHref  \<comment> \<open>line 292\<close>
  | GuideParseError string      \<comment> \<open>line 306\<close>
  | MissingPackageFile string   \<comment> \<open>line 314\<close>
  | PackageNotUtf8 string       \<comment> \<open>line 316\<close>

datatype read_exception = BadZipFile | NotImplementedError | RuntimeError | OtherReadError

datatype open_exception = TypeError | OSError

datatype error =
    ValueError value_error
  | KeyError string
  | ReadFailed read_exception
  | OpenFailed open_exception

text \<open>
  The error kinds of the specification (its section 7) are abstract names, not
  exception classes: the source raises \<open>ValueError\<close> throughout. \<open>kind\<close> records, for
  each raise site, the kind that the component design (sections 4.1 to 4.8) names for
  the failure raised there.
\<close>

datatype error_kind =
    StructuralError | EncodingError | MalformedDocumentError
  | ReferenceNotFoundError | DuplicateKeyError | MissingResourceError

fun kind :: "value_error \<Rightarrow> error_kind" where
  "kind MissingContainer = MissingResourceError"
| "kind (MissingPackageFile p) = MissingResourceError"
| "kind ContainerNotUtf8 = EncodingError"
| "kind (PackageNotUtf8 p) = EncodingError"
| "kind (ContainerParseError m) = MalformedDocumentError"
| "kind (OpfParseError m) = MalformedDocumentError"
| "kind (ManifestParseError m) = MalformedDocumentError"
| "kind (SpineParseError m) = MalformedDocumentError"
| "kind (GuideParseError m) = MalformedDocumentError"
| "kind NoRootfilesElement = ReferenceNotFoundError"
| "kind NoPackageRootfile = ReferenceNotFoundError"
| "kind (UniqueIdentifierUnmatched u) = ReferenceNotFoundError"
| "kind (IdrefNotInManifest i) = ReferenceNotFoundError"
| "kind (NotContentDocument i) = ReferenceNotFoundError"
| "kind (DuplicateHref h) = DuplicateKeyError"
| "kind (DuplicateIdref i) = DuplicateKeyError"
| "kind e = StructuralError"

section \<open>The archive: zipfile.ZipFile as verify_mimetype reads it\<close>

text \<open>
  A \<open>ZipInfo\<close> carries the member's name, compression method, extra field and
  flag bits (the last two 16-bit header fields). \<open>content\<close> is what \<open>ZipFile.read\<close>
  does for the member: the bytes it returns, or the exception it raises. A \<open>ZipFile\<close>
  holds the members in archive order (\<open>filelist\<close>); \<open>disk_file\<close> is what
  \<open>open(epub.filename, 'rb')\<close> gives: the bytes of the file, or the exception.
\<close>

record zip_info =
  filename :: string
  compress_type :: "16 word"
  extra :: "byte list"
  flag_bits :: "16 word"
  content :: "read_exception + byte list"

record zip_file =
  filelist :: "zip_info list"
  disk_file :: "open_exception + byte list"



text \<open>
  The index by name that \<open>getinfo\<close> and \<open>read\<close> consult. The library fills it while it
  reads the directory, \<open>NameToInfo[x.filename] = x\<close> for each member in turn: of the
  members of one name the last one stays.
\<close>

definition NameToInfo :: "zip_file \<Rightarrow> string \<Rightarrow> zip_info option" where
  "NameToInfo epub name = List.find (\<lambda>i. filename i = name) (rev (filelist epub))"

definition getinfo :: "zip_file \<Rightarrow> string \<Rightarrow> error + zip_info" where
  "getinfo epub name =
     (case NameToInfo epub name of None \<Rightarrow> Inl (KeyError name) | Some i \<Rightarrow> Inr i)"

definition read :: "zip_file \<Rightarrow> string \<Rightarrow> error + byte list" where
  "read epub name =
     (case getinfo epub name of
        Inl e \<Rightarrow> Inl e
      | Inr i \<Rightarrow> (case content i of Inl x \<Rightarrow> Inl (ReadFailed x) | Inr bs \<Rightarrow> Inr bs))"


text \<open>A bytes literal \<open>b'...'\<close> of ASCII characters.\<close>

definition bytes_of :: "string \<Rightarrow> byte list" where
  "bytes_of s = map of_char s"



subsection \<open>The six checks of the Archive Integrity Verifier, in the words of section 4.1\<close>

















subsection \<open>The checks as the code makes them\<close>










section \<open>The XML tree: xml.etree.ElementTree as the parsers read it\<close>

text \<open>
  An \<open>Element\<close> has a tag in Clark notation (\<open>{namespace}local\<close>), its attributes,
  its text (\<open>None\<close> when there is none) and its child elements in document order.
\<close>

datatype xml_element =
  Element (tag: string) (attrib: "(string \<times> string) list") (etext: "string option")
    (children: "xml_element list")

text \<open>\<open>e.get(k)\<close> and \<open>e.get(k, d)\<close>.\<close>

definition get :: "xml_element \<Rightarrow> string \<Rightarrow> string option" where
  "get e k = map_of (attrib e) k"

definition get_default :: "xml_element \<Rightarrow> string \<Rightarrow> string \<Rightarrow> string" where
  "get_default e k d = (case get e k of None \<Rightarrow> d | Some v \<Rightarrow> v)"

text \<open>
  \<open>e.find(t)\<close> and \<open>e.findall(t)\<close> for a path that is one qualified tag: the first
  child, and all children, with that tag.
\<close>

definition find_el :: "xml_element \<Rightarrow> string \<Rightarrow> xml_element option" where
  "find_el e t = List.find (\<lambda>c. tag c = t) (children e)"

definition findall :: "xml_element \<Rightarrow> string \<Rightarrow> xml_element list" where
  "findall e t = filter (\<lambda>c. tag c = t) (children e)"

definition endswith :: "string \<Rightarrow> string \<Rightarrow> bool" where
  "endswith s suffix = (drop (length s - length suffix) s = suffix)"

text \<open>The namespaces: \<open>ocf:\<close> and \<open>dc:\<close> of the prefix maps, and the OPF namespace.\<close>

definition ocf :: "string \<Rightarrow> string" where
  "ocf name = ''{urn:oasis:names:tc:opendocument:xmlns:container}'' @ name"

definition dc :: "string \<Rightarrow> string" where
  "dc name = ''{http://purl.org/dc/elements/1.1/}'' @ name"

definition opf :: "string \<Rightarrow> string" where
  "opf name = ''{http://www.idpf.org/2007/opf}'' @ name"

text \<open>
  The two library functions that turn bytes into a tree are parameters of the model:
  \<open>fromstring\<close> is \<open>ET.fromstring\<close> (\<open>Inl msg\<close> is \<open>ET.ParseError\<close> with its message),
  \<open>decode_utf8\<close> is \<open>bytes.decode('utf-8')\<close> (\<open>None\<close> is \<open>UnicodeDecodeError\<close>).
\<close>

record library =
  fromstring :: "string \<Rightarrow> string + xml_element"
  decode_utf8 :: "byte list \<Rightarrow> string option"

section \<open>parse_container\<close>

fun rootfile_loop :: "xml_element list \<Rightarrow> error + string" where
  "rootfile_loop [] = Inl (ValueError NoPackageRootfile)"
| "rootfile_loop (rootfile # rest) =
     (if get rootfile ''media-type'' = Some ''application/oebps-package+xml''
      then (case get rootfile ''full-path'' of
              None \<Rightarrow> rootfile_loop rest
            | Some full_path \<Rightarrow> if full_path \<noteq> [] then Inr full_path else rootfile_loop rest)
      else rootfile_loop rest)"

definition parse_container :: "library \<Rightarrow> zip_file \<Rightarrow> error + string" where
  "parse_container lib epub =
     (case read epub ''META-INF/container.xml'' of
        Inl (KeyError k) \<Rightarrow> Inl (ValueError MissingContainer)
      | Inl e \<Rightarrow> Inl e
      | Inr raw \<Rightarrow>
          (case decode_utf8 lib raw of
             None \<Rightarrow> Inl (ValueError ContainerNotUtf8)
           | Some container_data \<Rightarrow>
               (case fromstring lib container_data of
                  Inl msg \<Rightarrow> Inl (ValueError (ContainerParseError msg))
                | Inr root \<Rightarrow>
                    (case find_el root (ocf ''rootfiles'') of
                       None \<Rightarrow> Inl (ValueError NoRootfilesElement)
                     | Some rootfiles \<Rightarrow> rootfile_loop (findall rootfiles (ocf ''rootfile''))))))"

section \<open>parse_package_identity\<close>

definition parse_package_identity :: "library \<Rightarrow> string \<Rightarrow> error + (string \<times> string)" where
  "parse_package_identity lib opf_data =
     (case fromstring lib opf_data of
        Inl msg \<Rightarrow> Inl (ValueError (OpfParseError msg))
      | Inr root \<Rightarrow>
          if tag root \<noteq> ''{http://www.idpf.org/2007/opf}package''
          then Inl (ValueError RootNotPackage)
          else (case get root ''version'' of
            None \<Rightarrow> Inl (ValueError MissingVersion)
          | Some v \<Rightarrow>
              if v = [] then Inl (ValueError MissingVersion)
              else (case get root ''unique-identifier'' of
                None \<Rightarrow> Inl (ValueError MissingUniqueIdentifier)
              | Some u \<Rightarrow>
                  if u = [] then Inl (ValueError MissingUniqueIdentifier) else Inr (v, u))))"

section \<open>parse_metadata\<close>

record identifier_entry =
  identifier_id :: "string option"
  identifier_scheme :: "string option"
  identifier_value :: "string option"

record creator_entry =
  creator_name :: "string option"
  creator_role :: "string option"
  creator_file_as :: "string option"

record date_entry =
  date_date :: "string option"
  date_event :: "string option"

record meta_entry =
  meta_name :: "string option"
  meta_content :: "string option"
  meta_scheme :: "string option"
  meta_property :: "string option"
  meta_value :: "string option"

record metadata_info =
  title :: "string option list"
  identifiers :: "identifier_entry list"
  language :: "string option list"
  creator :: "creator_entry list"
  publisher :: "string option list"
  date :: "date_entry list"
  subject :: "string option list"
  description :: "string option list"
  rights :: "string option list"
  meta :: "meta_entry list"

text \<open>
  What \<open>parse_metadata\<close> hands back through \<open>return\<close>: the dictionary of metadata, or
  (lines 128 and 168) a \<open>str\<close> that describes an error.
\<close>

datatype metadata_return = MetadataInfo metadata_info | ErrorText string

definition extract_metadata :: "xml_element \<Rightarrow> metadata_info" where
  "extract_metadata md =
     \<lparr> title = map etext (findall md (dc ''title'')),
       identifiers = map (\<lambda>e. \<lparr> identifier_id = get e ''id'',
                                identifier_scheme = get e (opf ''scheme''),
                                identifier_value = etext e \<rparr>) (findall md (dc ''identifier'')),
       language = map etext (findall md (dc ''language'')),
       creator = map (\<lambda>e. \<lparr> creator_name = etext e,
                             creator_role = get e (opf ''role''),
                             creator_file_as = get e (opf ''file-as'') \<rparr>)
                   (findall md (dc ''creator'')),
       publisher = map etext (findall md (dc ''publisher'')),
       date = map (\<lambda>e. \<lparr> date_date = etext e, date_event = get e (opf ''event'') \<rparr>)
                (findall md (dc ''date'')),
       subject = map etext (findall md (dc ''subject'')),
       description = map etext (findall md (dc ''description'')),
       rights = map etext (findall md (dc ''rights'')),
       meta = map (\<lambda>e. \<lparr> meta_name = get e ''name'', meta_content = get e ''content'',
                          meta_scheme = get e ''scheme'', meta_property = get e ''property'',
                          meta_value = etext e \<rparr>)
                (filter (\<lambda>e. endswith (tag e) ''meta'') (children md)) \<rparr>"

text \<open>Line 161: the ids of the identifier entries whose id is neither \<open>None\<close> nor empty.\<close>

definition identifier_ids :: "metadata_info \<Rightarrow> string set" where
  "identifier_ids info =
     set (map (\<lambda>item. the (identifier_id item))
            (filter (\<lambda>item. \<not> falsy (identifier_id item)) (identifiers info)))"

definition parse_metadata :: "library \<Rightarrow> string \<Rightarrow> string \<Rightarrow> error + metadata_return" where
  "parse_metadata lib opf_data uid =
     (case fromstring lib opf_data of
        Inl msg \<Rightarrow> Inr (ErrorText (''Error: Failed to parse OPF metadata section: '' @ msg))
      | Inr root \<Rightarrow>
          (case find_el root (opf ''metadata'') of
             None \<Rightarrow> Inr (ErrorText ''Error: Missing <metadata> section in OPF file'')
           | Some md \<Rightarrow>
               if uid \<notin> identifier_ids (extract_metadata md)
               then Inl (ValueError (UniqueIdentifierUnmatched uid))
               else Inr (MetadataInfo (extract_metadata md))))"

section \<open>parse_manifest\<close>

record manifest_item =
  item_id :: "string option"
  item_href :: "string option"
  item_media_type :: "string option"
  item_fallback :: "string option"
  item_fallback_style :: "string option"
  item_required_namespace :: "string option"
  item_required_modules :: "string option"

text \<open>
  The two \<open>logging.warning\<close> calls of the loop (lines 204 and 207), with the values
  their messages interpolate: media-type and id, and the suggested type.
\<close>

datatype log_record =
    DeprecatedMediaType string string string
  | UnknownMediaType string string

definition MIME_TYPES :: "string set" where
  "MIME_TYPES = {''image/gif'', ''image/jpeg'', ''image/png'', ''image/svg+xml'',
     ''application/xhtml+xml'', ''application/x-dtbook+xml'', ''text/css'',
     ''application/xml'', ''application/x-dtbncx+xml'', ''application/vnd.ms-opentype''}"

text \<open>A dictionary whose values are \<open>str\<close> or \<open>None\<close>; \<open>dict_get d k\<close> is \<open>d.get(k)\<close>.\<close>

type_synonym suggestions = "string \<Rightarrow> string option option"

definition dict_get :: "suggestions \<Rightarrow> string \<Rightarrow> string option" where
  "dict_get d k = (case d k of None \<Rightarrow> None | Some v \<Rightarrow> v)"

definition SUGGESTED_MIME_TYPES :: suggestions where
  "SUGGESTED_MIME_TYPES =
     map_of [(''application/x-font-ttf'', Some ''application/vnd.ms-opentype''),
             (''application/vnd.adobe-page-template+xml'', None)]"

definition item_data_of :: "xml_element \<Rightarrow> manifest_item" where
  "item_data_of item =
     \<lparr> item_id = get item ''id'', item_href = get item ''href'',
       item_media_type = get item ''media-type'', item_fallback = get item ''fallback'',
       item_fallback_style = get item ''fallback-style'',
       item_required_namespace = get item ''required-namespace'',
       item_required_modules = get item ''required-modules'' \<rparr>"

text \<open>Lines 201 to 207: what one item adds to the log.\<close>

definition media_type_warnings ::
  "string set \<Rightarrow> suggestions \<Rightarrow> string \<Rightarrow> string \<Rightarrow> log_record list" where
  "media_type_warnings known_mime_types suggested_mime_types mt i =
     (if mt \<notin> known_mime_types
      then (case dict_get suggested_mime_types mt of
              None \<Rightarrow> [UnknownMediaType mt i]
            | Some suggested_type \<Rightarrow>
                if suggested_type \<noteq> [] then [DeprecatedMediaType mt i suggested_type]
                else [UnknownMediaType mt i])
      else [])"

text \<open>
  The loop over the items, with its three variables: \<open>manifest_info\<close>, \<open>hrefs\<close> and the
  log written so far. A raise leaves the log as it is.
\<close>

fun manifest_loop ::
  "string set \<Rightarrow> suggestions \<Rightarrow> xml_element list \<Rightarrow> manifest_item list \<Rightarrow> string set \<Rightarrow>
   log_record list \<Rightarrow> (error + manifest_item list) \<times> log_record list" where
  "manifest_loop known sugg [] manifest_info hrefs log = (Inr manifest_info, log)"
| "manifest_loop known sugg (item # rest) manifest_info hrefs log =
     (case item_id (item_data_of item) of
        None \<Rightarrow> (Inl (ValueError ItemMissingId), log)
      | Some i \<Rightarrow>
          if i = [] then (Inl (ValueError ItemMissingId), log)
          else (case item_href (item_data_of item) of
            None \<Rightarrow> (Inl (ValueError ItemMissingHref), log)
          | Some h \<Rightarrow>
              if h = [] then (Inl (ValueError ItemMissingHref), log)
              else (case item_media_type (item_data_of item) of
                None \<Rightarrow> (Inl (ValueError ItemMissingMediaType), log)
              | Some mt \<Rightarrow>
                  if mt = [] then (Inl (ValueError ItemMissingMediaType), log)
                  else if h \<in> hrefs then (Inl (ValueError (DuplicateHref h)), log)
                  else manifest_loop known sugg rest (manifest_info @ [item_data_of item])
                         (insert h hrefs) (log @ media_type_warnings known sugg mt i))))"

definition parse_manifest ::
  "library \<Rightarrow> string \<Rightarrow> string set \<Rightarrow> suggestions \<Rightarrow>
   (error + manifest_item list) \<times> log_record list" where
  "parse_manifest lib opf_data known_mime_types suggested_mime_types =
     (case fromstring lib opf_data of
        Inl msg \<Rightarrow> (Inl (ValueError (ManifestParseError msg)), [])
      | Inr root \<Rightarrow>
          (case find_el root (opf ''manifest'') of
             None \<Rightarrow> (Inl (ValueError MissingManifest), [])
           | Some mf \<Rightarrow>
               manifest_loop known_mime_types suggested_mime_types (findall mf (opf ''item''))
                 [] {} []))"

section \<open>parse_spine\<close>

record spine_item =
  idref :: string
  linear :: string

record spine_info =
  toc :: string
  primary_content :: "spine_item list"
  auxiliary_content :: "spine_item list"

text \<open>The set literal of lines 251 and 253.\<close>

definition OPS_CONTENT_TYPES :: "string set" where
  "OPS_CONTENT_TYPES =
     {''application/xhtml+xml'', ''application/x-dtbook+xml'', ''text/x-oeb1-document''}"

text \<open>\<open>v not in {...}\<close> for a value that is a \<open>str\<close> or \<open>None\<close>.\<close>

definition not_in_content_types :: "string option \<Rightarrow> bool" where
  "not_in_content_types v = (case v of None \<Rightarrow> True | Some s \<Rightarrow> s \<notin> OPS_CONTENT_TYPES)"

text \<open>
  Lines 250 to 255, for the manifest item that the idref names: true when the
  \<open>raise\<close> of line 255 is reached. The inner condition looks the fallback up once.
\<close>

definition not_content_document ::
  "(string \<Rightarrow> manifest_item option) \<Rightarrow> manifest_item \<Rightarrow> bool" where
  "not_content_document manifest_items manifest_item =
     ((falsy (item_media_type manifest_item) \<or>
         not_in_content_types (item_media_type manifest_item)) \<and>
      (case item_fallback manifest_item of
         None \<Rightarrow> True
       | Some fallback \<Rightarrow>
           fallback = [] \<or>
           (case manifest_items fallback of
              None \<Rightarrow> True
            | Some fallback_item \<Rightarrow> not_in_content_types (item_media_type fallback_item))))"

text \<open>
  The loop over the itemrefs, with its three variables: \<open>primary_content\<close>,
  \<open>auxiliary_content\<close> and \<open>seen_idrefs\<close>.
\<close>

fun spine_loop ::
  "(string \<Rightarrow> manifest_item option) \<Rightarrow> xml_element list \<Rightarrow> spine_item list \<Rightarrow>
   spine_item list \<Rightarrow> string set \<Rightarrow> error + (spine_item list \<times> spine_item list)" where
  "spine_loop manifest_items [] primary auxiliary seen_idrefs = Inr (primary, auxiliary)"
| "spine_loop manifest_items (itemref # rest) primary auxiliary seen_idrefs =
     (case get itemref ''idref'' of
        None \<Rightarrow> Inl (ValueError ItemrefMissingIdref)
      | Some i \<Rightarrow>
          if i = [] then Inl (ValueError ItemrefMissingIdref)
          else if i \<in> seen_idrefs then Inl (ValueError (DuplicateIdref i))
          else (case manifest_items i of
            None \<Rightarrow> Inl (ValueError (IdrefNotInManifest i))
          | Some manifest_item \<Rightarrow>
              if not_content_document manifest_items manifest_item
              then Inl (ValueError (NotContentDocument i))
              else if get_default itemref ''linear'' ''yes'' = ''yes''
              then spine_loop manifest_items rest
                     (primary @ [\<lparr> idref = i, linear = get_default itemref ''linear'' ''yes'' \<rparr>])
                     auxiliary (insert i seen_idrefs)
              else spine_loop manifest_items rest primary
                     (auxiliary @ [\<lparr> idref = i, linear = get_default itemref ''linear'' ''yes'' \<rparr>])
                     (insert i seen_idrefs)))"

definition parse_spine ::
  "library \<Rightarrow> string \<Rightarrow> (string \<Rightarrow> manifest_item option) \<Rightarrow> error + spine_info" where
  "parse_spine lib opf_data manifest_items =
     (case fromstring lib opf_data of
        Inl msg \<Rightarrow> Inl (ValueError (SpineParseError msg))
      | Inr root \<Rightarrow>
          (case find_el root (opf ''spine'') of
             None \<Rightarrow> Inl (ValueError MissingSpine)
           | Some sp \<Rightarrow>
               (case get sp ''toc'' of
                  None \<Rightarrow> Inl (ValueError SpineMissingToc)
                | Some t \<Rightarrow>
                    if t = [] then Inl (ValueError SpineMissingToc)
                    else (case spine_loop manifest_items (findall sp (opf ''itemref'')) [] [] {} of
                      Inl e \<Rightarrow> Inl e
                    | Inr (primary, auxiliary) \<Rightarrow>
                        Inr \<lparr> toc = t, primary_content = primary,
                              auxiliary_content = auxiliary \<rparr>))))"

section \<open>parse_guide\<close>

record guide_reference =
  ref_type :: string
  ref_href :: string
  ref_title :: "string option"

fun guide_loop :: "xml_element list \<Rightarrow> guide_reference list \<Rightarrow> error + guide_reference list" where
  "guide_loop [] references = Inr references"
| "guide_loop (r # rest) references =
     (if falsy (get r ''type'') \<or> falsy (get r ''href'')
      then Inl (ValueError ReferenceMissingTypeOrHref)
      else guide_loop rest
             (references @ [\<lparr> ref_type = get_default r ''type'' [],
                               ref_href = get_default r ''href'' [],
                               ref_title = get r ''title'' \<rparr>]))"

definition parse_guide :: "library \<Rightarrow> string \<Rightarrow> error + guide_reference list" where
  "parse_guide lib opf_data =
     (case fromstring lib opf_data of
        Inl msg \<Rightarrow> Inl (ValueError (GuideParseError msg))
      | Inr root \<Rightarrow>
          (case find_el root (opf ''guide'') of
             None \<Rightarrow> Inr []
           | Some g \<Rightarrow> guide_loop (findall g (opf ''reference'')) []))"

section \<open>parse_package\<close>

text \<open>
  Line 321, \<open>{item['id']: item for item in manifest}\<close>: a later item replaces an
  earlier one with the same id.
\<close>

fun dict_of_manifest ::
  "manifest_item list \<Rightarrow> (string \<Rightarrow> manifest_item option) \<Rightarrow> (string \<Rightarrow> manifest_item option)" where
  "dict_of_manifest [] d = d"
| "dict_of_manifest (item # rest) d =
     (case item_id item of
        None \<Rightarrow> dict_of_manifest rest d
      | Some i \<Rightarrow> dict_of_manifest rest (d(i \<mapsto> item)))"

text \<open>The local variables of \<open>parse_package\<close> when its last statement (line 323) is done.\<close>

record package_locals =
  version :: string
  unique_identifier :: string
  metadata :: metadata_return
  manifest :: "manifest_item list"
  spine :: spine_info
  guide :: "guide_reference list"

definition parse_package_locals :: "library \<Rightarrow> zip_file \<Rightarrow> string \<Rightarrow> error + package_locals" where
  "parse_package_locals lib epub package_content_path =
     (case read epub package_content_path of
        Inl (KeyError k) \<Rightarrow> Inl (ValueError (MissingPackageFile package_content_path))
      | Inl e \<Rightarrow> Inl e
      | Inr raw \<Rightarrow>
          (case decode_utf8 lib raw of
             None \<Rightarrow> Inl (ValueError (PackageNotUtf8 package_content_path))
           | Some opf_data \<Rightarrow>
               (case parse_package_identity lib opf_data of
                  Inl e \<Rightarrow> Inl e
                | Inr (v, u) \<Rightarrow>
                    (case parse_metadata lib opf_data u of
                       Inl e \<Rightarrow> Inl e
                     | Inr md \<Rightarrow>
                         (case fst (parse_manifest lib opf_data MIME_TYPES SUGGESTED_MIME_TYPES) of
                            Inl e \<Rightarrow> Inl e
                          | Inr mf \<Rightarrow>
                              (case parse_spine lib opf_data (dict_of_manifest mf Map.empty) of
                                 Inl e \<Rightarrow> Inl e
                               | Inr sp \<Rightarrow>
                                   (case parse_guide lib opf_data of
                                      Inl e \<Rightarrow> Inl e
                                    | Inr g \<Rightarrow>
                                        Inr \<lparr> version = v, unique_identifier = u, metadata = md,
                                              manifest = mf, spine = sp, guide = g \<rparr>)))))))"

text \<open>
  \<open>parse_package\<close> has no \<open>return\<close> statement: when no stage raises, the caller receives
  Python's \<open>None\<close>, here the \<open>None\<close> of the option type.
\<close>

definition parse_package ::
  "library \<Rightarrow> zip_file \<Rightarrow> string \<Rightarrow> error + package_locals option" where
  "parse_package lib epub package_content_path =
     (case parse_package_locals lib epub package_content_path of
        Inl e \<Rightarrow> Inl e
      | Inr locals \<Rightarrow> Inr None)"

section \<open>The specification's notions, for the statements below\<close>

subsection \<open>Container Locator (section 4.2)\<close>

text \<open>The first rootfile child whose media-type is the package-document media type.\<close>

definition first_package_rootfile :: "xml_element list \<Rightarrow> xml_element option" where
  "first_package_rootfile rootfile_children =
     List.find (\<lambda>r. get r ''media-type'' = Some ''application/oebps-package+xml'')
       rootfile_children"

text \<open>The first such child that also carries a full-path attribute that is not empty.\<close>

definition first_usable_rootfile :: "xml_element list \<Rightarrow> xml_element option" where
  "first_usable_rootfile rootfile_children =
     List.find (\<lambda>r. get r ''media-type'' = Some ''application/oebps-package+xml'' \<and>
                     \<not> falsy (get r ''full-path''))
       rootfile_children"

subsection \<open>Metadata Extractor (section 4.4)\<close>

text \<open>The id attributes of the declared \<open>dc:identifier\<close> elements, as they are written.\<close>

definition declared_identifier_ids :: "xml_element \<Rightarrow> string set" where
  "declared_identifier_ids md =
     {i. Some i \<in> set (map (\<lambda>e. get e ''id'') (findall md (dc ''identifier'')))}"

subsection \<open>Manifest Parser (section 4.5)\<close>

text \<open>An item element that carries the three mandatory attributes.\<close>

definition item_complete :: "xml_element \<Rightarrow> bool" where
  "item_complete item =
     (\<not> falsy (get item ''id'') \<and> \<not> falsy (get item ''href'') \<and>
      \<not> falsy (get item ''media-type''))"

definition hrefs_of :: "xml_element list \<Rightarrow> string option list" where
  "hrefs_of items = map (\<lambda>item. get item ''href'') items"

definition ids_of :: "xml_element list \<Rightarrow> string option list" where
  "ids_of items = map (\<lambda>item. get item ''id'') items"

text \<open>
  The advisory warning for an item whose media-type is not recognized: it names the
  suggested replacement when one is known, and otherwise says that the type is unknown.
\<close>

definition advisory_warning :: "suggestions \<Rightarrow> xml_element \<Rightarrow> log_record" where
  "advisory_warning suggested item =
     (case suggested (get_default item ''media-type'' []) of
        Some (Some replacement) \<Rightarrow>
          if replacement = []
          then UnknownMediaType (get_default item ''media-type'' []) (get_default item ''id'' [])
          else DeprecatedMediaType (get_default item ''media-type'' [])
                 (get_default item ''id'' []) replacement
      | _ \<Rightarrow> UnknownMediaType (get_default item ''media-type'' []) (get_default item ''id'' []))"

definition unrecognized :: "string set \<Rightarrow> xml_element \<Rightarrow> bool" where
  "unrecognized known item = (get_default item ''media-type'' [] \<notin> known)"

subsection \<open>Spine Parser (section 4.6)\<close>

text \<open>A media-type that is one of the known document-content types.\<close>

definition eligible :: "string option \<Rightarrow> bool" where
  "eligible media_type =
     (case media_type of None \<Rightarrow> False | Some m \<Rightarrow> m \<in> OPS_CONTENT_TYPES)"

text \<open>The item's fallback attribute names a manifest item whose media-type is eligible.\<close>

definition fallback_eligible :: "(string \<Rightarrow> manifest_item option) \<Rightarrow> manifest_item \<Rightarrow> bool" where
  "fallback_eligible manifest_items item =
     (case item_fallback item of
        None \<Rightarrow> False
      | Some f \<Rightarrow>
          f \<noteq> [] \<and>
          (case manifest_items f of
             None \<Rightarrow> False
           | Some fallback_item \<Rightarrow> eligible (item_media_type fallback_item)))"

text \<open>
  An itemref that passes the idref checks and the content-type check: its idref is
  present, is a key of the manifest lookup, and names an item that is eligible
  directly or through its fallback. That no idref repeats is said of the whole list.
\<close>

definition itemref_passes :: "(string \<Rightarrow> manifest_item option) \<Rightarrow> xml_element \<Rightarrow> bool" where
  "itemref_passes manifest_items itemref =
     (case get itemref ''idref'' of
        None \<Rightarrow> False
      | Some i \<Rightarrow>
          i \<noteq> [] \<and>
          (case manifest_items i of
             None \<Rightarrow> False
           | Some item \<Rightarrow>
               eligible (item_media_type item) \<or> fallback_eligible manifest_items item))"

definition idrefs_of :: "xml_element list \<Rightarrow> string option list" where
  "idrefs_of itemrefs = map (\<lambda>r. get r ''idref'') itemrefs"

definition itemrefs_pass :: "(string \<Rightarrow> manifest_item option) \<Rightarrow> xml_element list \<Rightarrow> bool" where
  "itemrefs_pass manifest_items itemrefs =
     (list_all (itemref_passes manifest_items) itemrefs \<and> distinct (idrefs_of itemrefs))"

text \<open>The entry of an itemref: its idref, and its linear attribute or \<open>yes\<close> without one.\<close>

definition spine_entry :: "xml_element \<Rightarrow> spine_item" where
  "spine_entry itemref =
     \<lparr> idref = (case get itemref ''idref'' of None \<Rightarrow> [] | Some i \<Rightarrow> i),
       linear = (case get itemref ''linear'' of None \<Rightarrow> ''yes'' | Some l \<Rightarrow> l) \<rparr>"

definition is_primary :: "spine_item \<Rightarrow> bool" where
  "is_primary entry = (linear entry = ''yes'')"

subsection \<open>One iteration of each loop\<close>

text \<open>
  The exception that one iteration of the spine loop raises for an itemref, if any,
  and the idrefs seen once the loop has gone through a list of itemrefs.
\<close>

definition itemref_error ::
  "(string \<Rightarrow> manifest_item option) \<Rightarrow> string set \<Rightarrow> xml_element \<Rightarrow> value_error option" where
  "itemref_error manifest_items seen_idrefs itemref =
     (case get itemref ''idref'' of
        None \<Rightarrow> Some ItemrefMissingIdref
      | Some i \<Rightarrow>
          if i = [] then Some ItemrefMissingIdref
          else if i \<in> seen_idrefs then Some (DuplicateIdref i)
          else (case manifest_items i of
            None \<Rightarrow> Some (IdrefNotInManifest i)
          | Some item \<Rightarrow>
              if not_content_document manifest_items item then Some (NotContentDocument i)
              else None))"

definition seen_after :: "string set \<Rightarrow> xml_element list \<Rightarrow> string set" where
  "seen_after seen_idrefs itemrefs = seen_idrefs \<union> {i. Some i \<in> set (idrefs_of itemrefs)}"

text \<open>The same for the manifest loop: the exception for an item, and the hrefs seen.\<close>

definition item_error :: "string set \<Rightarrow> xml_element \<Rightarrow> value_error option" where
  "item_error hrefs item =
     (if falsy (get item ''id'') then Some ItemMissingId
      else if falsy (get item ''href'') then Some ItemMissingHref
      else if falsy (get item ''media-type'') then Some ItemMissingMediaType
      else if get_default item ''href'' [] \<in> hrefs
      then Some (DuplicateHref (get_default item ''href'' []))
      else None)"

definition hrefs_after :: "string set \<Rightarrow> xml_element list \<Rightarrow> string set" where
  "hrefs_after hrefs items = hrefs \<union> {h. Some h \<in> set (hrefs_of items)}"

section \<open>Example inputs\<close>

text \<open>
  An archive built from its members and the bytes of its
  file, and a library that knows one document: its bytes, its text and the tree that
  \<open>ET.fromstring\<close> builds from the text. The documents are written on one line, so no
  element has whitespace for text.
\<close>

definition example_archive :: "zip_info list \<Rightarrow> byte list \<Rightarrow> zip_file" where
  "example_archive members bytes = \<lparr> filelist = members, disk_file = Inr bytes \<rparr>"

definition example_library :: "string \<Rightarrow> xml_element \<Rightarrow> library" where
  "example_library doc tree =
     \<lparr> fromstring = (\<lambda>s. if s = doc then Inr tree else Inl ''unclosed token: line 1, column 0''),
       decode_utf8 = (\<lambda>bs. if bs = bytes_of doc then Some doc else None) \<rparr>"

definition stored_member :: "string \<Rightarrow> byte list \<Rightarrow> zip_info" where
  "stored_member name bs =
     \<lparr> filename = name, compress_type = 0, extra = [], flag_bits = 0, content = Inr bs \<rparr>"

definition deflated_member :: "string \<Rightarrow> byte list \<Rightarrow> zip_info" where
  "deflated_member name bs =
     \<lparr> filename = name, compress_type = 8, extra = [], flag_bits = 0, content = Inr bs \<rparr>"

text \<open>
  The file starts with the local header of the mimetype member (30 bytes: signature,
  version, flags, method, time, date, CRC-32, the two sizes, the two lengths), its
  name and its content; the signature of the next header follows.
\<close>

definition ex_header :: "byte list" where
  "ex_header =
     [0x50, 0x4B, 0x03, 0x04, 0x0A, 0x00, 0x00, 0x00, 0x00, 0x00,
      0x00, 0x00, 0x21, 0x00, 0x6F, 0x61, 0xAB, 0x2C, 0x14, 0x00,
      0x00, 0x00, 0x14, 0x00, 0x00, 0x00, 0x08, 0x00, 0x00, 0x00]"

definition ex_disk_bytes :: "byte list" where
  "ex_disk_bytes =
     ex_header @ bytes_of ''mimetype'' @ bytes_of ''application/epub+zip''
     @ [0x50, 0x4B, 0x03, 0x04]"

definition ex_mimetype :: zip_info where
  "ex_mimetype = stored_member ''mimetype'' (bytes_of ''application/epub+zip'')"

text \<open>Item and itemref elements, and the chapter that the examples share.\<close>

definition item_el :: "(string \<times> string) list \<Rightarrow> xml_element" where
  "item_el attributes = Element (opf ''item'') attributes None []"

definition itemref_el :: "(string \<times> string) list \<Rightarrow> xml_element" where
  "itemref_el attributes = Element (opf ''itemref'') attributes None []"

definition chap1_item :: xml_element where
  "chap1_item =
     item_el [(''id'', ''chap1''), (''href'', ''chap1.xhtml''),
              (''media-type'', ''application/xhtml+xml'')]"

definition chap1_ref :: xml_element where
  "chap1_ref = itemref_el [(''idref'', ''chap1'')]"

subsection \<open>The end-to-end scenario of section 8\<close>

definition ex_container_text :: string where
  "ex_container_text =
     ''<container version='1.0' xmlns='urn:oasis:names:tc:opendocument:xmlns:container'>''
     @ ''<rootfiles>''
     @ ''<rootfile full-path='OEBPS/content.opf' media-type='application/oebps-package+xml'/>''
     @ ''</rootfiles></container>''"

definition ex_container_tree :: xml_element where
  "ex_container_tree =
     Element (ocf ''container'') [(''version'', ''1.0'')] None
       [Element (ocf ''rootfiles'') [] None
          [Element (ocf ''rootfile'')
             [(''full-path'', ''OEBPS/content.opf''),
              (''media-type'', ''application/oebps-package+xml'')] None []]]"

text \<open>The package document of the scenario, for a unique-identifier key.\<close>

definition scenario_text :: "string \<Rightarrow> string" where
  "scenario_text uid =
     ''<package xmlns='http://www.idpf.org/2007/opf' version='3.0' unique-identifier=''
     @ [CHR 0x27] @ uid @ [CHR 0x27] @ ''>''
     @ ''<metadata xmlns:dc='http://purl.org/dc/elements/1.1/'>''
     @ ''<dc:identifier id='BookId'>urn:isbn:9780000000001</dc:identifier>''
     @ ''<dc:title>Example</dc:title><dc:language>en</dc:language></metadata>''
     @ ''<manifest>''
     @ ''<item id='chap1' href='chap1.xhtml' media-type='application/xhtml+xml'/>''
     @ ''</manifest>''
     @ ''<spine toc='ncx'><itemref idref='chap1'/></spine></package>''"

definition scenario_metadata :: xml_element where
  "scenario_metadata =
     Element (opf ''metadata'') [] None
       [Element (dc ''identifier'') [(''id'', ''BookId'')] (Some ''urn:isbn:9780000000001'') [],
        Element (dc ''title'') [] (Some ''Example'') [],
        Element (dc ''language'') [] (Some ''en'') []]"

definition scenario_tree :: "string \<Rightarrow> xml_element" where
  "scenario_tree uid =
     Element (opf ''package'') [(''version'', ''3.0''), (''unique-identifier'', uid)] None
       [scenario_metadata,
        Element (opf ''manifest'') [] None [chap1_item],
        Element (opf ''spine'') [(''toc'', ''ncx'')] None [chap1_ref]]"

text \<open>
  The same package document with an empty unique-identifier key and an identifier
  whose id attribute is empty.
\<close>

definition empty_id_text :: string where
  "empty_id_text =
     ''<package xmlns='http://www.idpf.org/2007/opf' version='3.0' unique-identifier=''
     @ [CHR 0x27, CHR 0x27] @ ''>''
     @ ''<metadata xmlns:dc='http://purl.org/dc/elements/1.1/'>''
     @ ''<dc:identifier id='' @ [CHR 0x27, CHR 0x27]
     @ ''>urn:isbn:9780000000001</dc:identifier>''
     @ ''<dc:title>Example</dc:title><dc:language>en</dc:language></metadata>''
     @ ''<manifest>''
     @ ''<item id='chap1' href='chap1.xhtml' media-type='application/xhtml+xml'/>''
     @ ''</manifest>''
     @ ''<spine toc='ncx'><itemref idref='chap1'/></spine></package>''"

definition empty_id_metadata :: xml_element where
  "empty_id_metadata =
     Element (opf ''metadata'') [] None
       [Element (dc ''identifier'') [(''id'', [])] (Some ''urn:isbn:9780000000001'') [],
        Element (dc ''title'') [] (Some ''Example'') [],
        Element (dc ''language'') [] (Some ''en'') []]"

definition empty_id_tree :: xml_element where
  "empty_id_tree =
     Element (opf ''package'') [(''version'', ''3.0''), (''unique-identifier'', [])] None
       [empty_id_metadata,
        Element (opf ''manifest'') [] None [chap1_item],
        Element (opf ''spine'') [(''toc'', ''ncx'')] None [chap1_ref]]"

definition empty_id_library :: library where
  "empty_id_library = example_library empty_id_text empty_id_tree"

definition scenario_epub :: "string \<Rightarrow> zip_file" where
  "scenario_epub uid =
     example_archive
       [ex_mimetype,
        deflated_member ''META-INF/container.xml'' (bytes_of ex_container_text),
        deflated_member ''OEBPS/content.opf'' (bytes_of (scenario_text uid))]
       ex_disk_bytes"

definition scenario_library :: "string \<Rightarrow> library" where
  "scenario_library uid = example_library (scenario_text uid) (scenario_tree uid)"




subsection \<open>A container whose first package rootfile has an empty full-path\<close>

definition cx_container_text :: string where
  "cx_container_text =
     ''<container version='1.0' xmlns='urn:oasis:names:tc:opendocument:xmlns:container'>''
     @ ''<rootfiles>''
     @ ''<rootfile full-path='' @ [CHR 0x27, CHR 0x27]
     @ '' media-type='application/oebps-package+xml'/>''
     @ ''<rootfile full-path='OEBPS/content.opf' media-type='application/oebps-package+xml'/>''
     @ ''</rootfiles></container>''"

definition cx_rootfile1 :: xml_element where
  "cx_rootfile1 =
     Element (ocf ''rootfile'')
       [(''full-path'', []), (''media-type'', ''application/oebps-package+xml'')] None []"

definition cx_rootfile2 :: xml_element where
  "cx_rootfile2 =
     Element (ocf ''rootfile'')
       [(''full-path'', ''OEBPS/content.opf''),
        (''media-type'', ''application/oebps-package+xml'')] None []"

definition cx_rootfiles :: xml_element where
  "cx_rootfiles = Element (ocf ''rootfiles'') [] None [cx_rootfile1, cx_rootfile2]"

definition cx_container_tree :: xml_element where
  "cx_container_tree = Element (ocf ''container'') [(''version'', ''1.0'')] None [cx_rootfiles]"

definition cx_epub :: zip_file where
  "cx_epub =
     example_archive
       [ex_mimetype, deflated_member ''META-INF/container.xml'' (bytes_of cx_container_text)]
       ex_disk_bytes"

definition cx_library :: library where
  "cx_library = example_library cx_container_text cx_container_tree"

subsection \<open>Package documents for the manifest and the spine\<close>

text \<open>A package document with the given manifest and spine, as text and as tree.\<close>

definition package_text :: "string \<Rightarrow> string \<Rightarrow> string" where
  "package_text manifest_xml spine_xml =
     ''<package xmlns='http://www.idpf.org/2007/opf' version='2.0' unique-identifier='BookId'>''
     @ ''<metadata xmlns:dc='http://purl.org/dc/elements/1.1/'>''
     @ ''<dc:identifier id='BookId'>urn:isbn:9780000000001</dc:identifier>''
     @ ''<dc:title>Example</dc:title><dc:language>en</dc:language></metadata>''
     @ ''<manifest>'' @ manifest_xml @ ''</manifest>''
     @ ''<spine toc='ncx'>'' @ spine_xml @ ''</spine></package>''"

definition package_tree :: "xml_element list \<Rightarrow> xml_element list \<Rightarrow> xml_element" where
  "package_tree items itemrefs =
     Element (opf ''package'') [(''version'', ''2.0''), (''unique-identifier'', ''BookId'')] None
       [scenario_metadata,
        Element (opf ''manifest'') [] None items,
        Element (opf ''spine'') [(''toc'', ''ncx'')] None itemrefs]"

text \<open>
  A manifest with a deprecated and an unknown media-type, an image that falls back
  to a page, and two items of the same id; a spine that names three of the items.
\<close>

definition rich_manifest_xml :: string where
  "rich_manifest_xml =
     ''<item id='chap1' href='chap1.xhtml' media-type='application/xhtml+xml'/>''
     @ ''<item id='pic' href='pic.jpg' media-type='image/jpeg' fallback='page'/>''
     @ ''<item id='font' href='font.ttf' media-type='application/x-font-ttf'/>''
     @ ''<item id='tpl' href='page.xpgt' media-type='application/vnd.adobe-page-template+xml'/>''
     @ ''<item id='page' href='page1.xhtml' media-type='application/xhtml+xml'/>''
     @ ''<item id='page' href='page2.xhtml' media-type='application/xhtml+xml'/>''"

definition pic_item :: xml_element where
  "pic_item =
     item_el [(''id'', ''pic''), (''href'', ''pic.jpg''), (''media-type'', ''image/jpeg''),
              (''fallback'', ''page'')]"

definition font_item :: xml_element where
  "font_item =
     item_el [(''id'', ''font''), (''href'', ''font.ttf''),
              (''media-type'', ''application/x-font-ttf'')]"

definition tpl_item :: xml_element where
  "tpl_item =
     item_el [(''id'', ''tpl''), (''href'', ''page.xpgt''),
              (''media-type'', ''application/vnd.adobe-page-template+xml'')]"

definition page_item :: xml_element where
  "page_item =
     item_el [(''id'', ''page''), (''href'', ''page1.xhtml''),
              (''media-type'', ''application/xhtml+xml'')]"

definition page2_item :: xml_element where
  "page2_item =
     item_el [(''id'', ''page''), (''href'', ''page2.xhtml''),
              (''media-type'', ''application/xhtml+xml'')]"

definition rich_items :: "xml_element list" where
  "rich_items = [chap1_item, pic_item, font_item, tpl_item, page_item, page2_item]"

definition rich_spine_xml :: string where
  "rich_spine_xml =
     ''<itemref idref='chap1'/><itemref idref='pic' linear='no'/>''
     @ ''<itemref idref='page' linear='yes'/>''"

definition pic_ref :: xml_element where
  "pic_ref = itemref_el [(''idref'', ''pic''), (''linear'', ''no'')]"

definition page_ref :: xml_element where
  "page_ref = itemref_el [(''idref'', ''page''), (''linear'', ''yes'')]"

definition rich_itemrefs :: "xml_element list" where
  "rich_itemrefs = [chap1_ref, pic_ref, page_ref]"

definition rich_text :: string where
  "rich_text = package_text rich_manifest_xml rich_spine_xml"

definition rich_tree :: xml_element where
  "rich_tree = package_tree rich_items rich_itemrefs"

definition rich_library :: library where
  "rich_library = example_library rich_text rich_tree"

text \<open>A manifest in which two items share an href.\<close>

definition dup_manifest_xml :: string where
  "dup_manifest_xml =
     ''<item id='a' href='chap1.xhtml' media-type='application/xhtml+xml'/>''
     @ ''<item id='b' href='chap1.xhtml' media-type='application/xhtml+xml'/>''"

definition dup_items :: "xml_element list" where
  "dup_items =
     [item_el [(''id'', ''a''), (''href'', ''chap1.xhtml''),
               (''media-type'', ''application/xhtml+xml'')],
      item_el [(''id'', ''b''), (''href'', ''chap1.xhtml''),
               (''media-type'', ''application/xhtml+xml'')]]"

definition dup_text :: string where
  "dup_text = package_text dup_manifest_xml ''<itemref idref='a'/>''"

definition dup_tree :: xml_element where
  "dup_tree = package_tree dup_items [itemref_el [(''idref'', ''a'')]]"

definition dup_library :: library where
  "dup_library = example_library dup_text dup_tree"


definition img_item :: xml_element where
  "img_item =
     item_el [(''id'', ''img''), (''href'', ''img.png''), (''media-type'', ''image/png''),
              (''fallback'', ''svg'')]"

definition svg_item :: xml_element where
  "svg_item =
     item_el [(''id'', ''svg''), (''href'', ''img.svg''), (''media-type'', ''image/svg+xml''),
              (''fallback'', ''page'')]"

definition chain_items :: "xml_element list" where
  "chain_items = [chap1_item, img_item, svg_item, page_item]"

definition img_ref :: xml_element where
  "img_ref = itemref_el [(''idref'', ''img'')]"

definition chain_itemrefs :: "xml_element list" where
  "chain_itemrefs = [chap1_ref, img_ref]"




text \<open>The lookup that line 321 builds from the items of a manifest.\<close>

definition lookup_of :: "xml_element list \<Rightarrow> (string \<Rightarrow> manifest_item option)" where
  "lookup_of items = dict_of_manifest (map item_data_of items) Map.empty"

section \<open>The Archive Integrity Verifier\<close>























section \<open>The Spine Parser\<close>

lemma not_in_content_types_eligible: "not_in_content_types v = (\<not> eligible v)"
  by (simp add: not_in_content_types_def eligible_def split: option.splits)

lemma falsy_not_eligible: "falsy v \<Longrightarrow> \<not> eligible v"
  by (auto simp add: falsy_def eligible_def OPS_CONTENT_TYPES_def split: option.splits)

lemma not_content_document_iff:
  "not_content_document items it =
     (\<not> eligible (item_media_type it) \<and> \<not> fallback_eligible items it)"
  using falsy_not_eligible [of "item_media_type it"]
  by (auto simp add: not_content_document_def not_in_content_types_eligible
      fallback_eligible_def split: option.splits)

lemma spine_loop_Cons:
  "spine_loop items (ir # rest) prim aux seen =
     (case itemref_error items seen ir of
        Some e \<Rightarrow> Inl (ValueError e)
      | None \<Rightarrow>
          spine_loop items rest (prim @ filter is_primary [spine_entry ir])
            (aux @ filter (\<lambda>e. \<not> is_primary e) [spine_entry ir]) (seen_after seen [ir]))"
proof (cases "itemref_error items seen ir")
  case (Some e)
  then show ?thesis
    by (auto simp add: itemref_error_def split: option.splits if_splits)
next
  case None
  then obtain i it where "get ir ''idref'' = Some i" "i \<noteq> []" "i \<notin> seen" "items i = Some it"
    "\<not> not_content_document items it"
    by (auto simp add: itemref_error_def split: option.splits if_splits)
  moreover from this have "seen_after seen [ir] = insert i seen"
    by (auto simp add: seen_after_def idrefs_of_def)
  ultimately show ?thesis
    using None by (simp add: spine_entry_def is_primary_def get_default_def)
qed

declare spine_loop.simps(2) [simp del]


lemma spine_loop_result:
  "spine_loop items irs prim aux seen = Inr (p, a) \<Longrightarrow>
     p = prim @ filter is_primary (map spine_entry irs) \<and>
     a = aux @ filter (\<lambda>e. \<not> is_primary e) (map spine_entry irs)"
proof (induction irs arbitrary: prim aux seen)
  case Nil
  then show ?case by simp
next
  case (Cons ir irs)
  from Cons.prems have "itemref_error items seen ir = None"
    by (cases "itemref_error items seen ir") (simp_all add: spine_loop_Cons)
  with Cons.prems have "spine_loop items irs (prim @ filter is_primary [spine_entry ir])
       (aux @ filter (\<lambda>e. \<not> is_primary e) [spine_entry ir]) (seen_after seen [ir]) = Inr (p, a)"
    by (simp add: spine_loop_Cons)
  from Cons.IH [OF this] show ?case by simp
qed

lemma itemref_passes_no_error:
  "itemref_passes items ir \<Longrightarrow> \<forall>i \<in> seen. get ir ''idref'' \<noteq> Some i \<Longrightarrow>
     itemref_error items seen ir = None"
  by (auto simp add: itemref_passes_def itemref_error_def not_content_document_iff
      split: option.splits)

lemma spine_loop_pass:
  "list_all (itemref_passes items) irs \<Longrightarrow> distinct (idrefs_of irs) \<Longrightarrow>
   (\<forall>i \<in> seen. Some i \<notin> set (idrefs_of irs)) \<Longrightarrow>
   spine_loop items irs prim aux seen =
     Inr (prim @ filter is_primary (map spine_entry irs),
          aux @ filter (\<lambda>e. \<not> is_primary e) (map spine_entry irs))"
proof (induction irs arbitrary: prim aux seen)
  case Nil
  then show ?case by simp
next
  case (Cons ir irs)
  have ok: "itemref_error items seen ir = None"
    using Cons.prems by (intro itemref_passes_no_error) (auto simp add: idrefs_of_def)
  have rest: "list_all (itemref_passes items) irs" "distinct (idrefs_of irs)"
    "\<forall>j \<in> seen_after seen [ir]. Some j \<notin> set (idrefs_of irs)"
    using Cons.prems by (auto simp add: idrefs_of_def seen_after_def)
  show ?case
    by (simp add: spine_loop_Cons ok Cons.IH [OF rest])
qed



lemma parse_spine_loop:
  assumes "fromstring lib opf_data = Inr root" "find_el root (opf ''spine'') = Some sp"
    "get sp ''toc'' = Some t" "t \<noteq> []"
  shows "parse_spine lib opf_data items =
     (case spine_loop items (findall sp (opf ''itemref'')) [] [] {} of
        Inl e \<Rightarrow> Inl e
      | Inr (p, a) \<Rightarrow> Inr \<lparr> toc = t, primary_content = p, auxiliary_content = a \<rparr>)"
  using assms by (simp add: parse_spine_def)

lemma parse_spine_Inr:
  assumes "fromstring lib opf_data = Inr root" "find_el root (opf ''spine'') = Some sp"
    "parse_spine lib opf_data items = Inr result"
  shows "spine_loop items (findall sp (opf ''itemref'')) [] [] {} =
           Inr (primary_content result, auxiliary_content result)"
  using assms by (auto simp add: parse_spine_def split: option.splits if_splits sum.splits)

text \<open>
  Claim C8. When \<open>parse_spine\<close> returns, its primary sequence is the entries of the
  itemrefs whose linear value is \<open>yes\<close> and its auxiliary sequence the entries of all
  others, each in document order. An itemref without a linear attribute gets linear
  \<open>yes\<close> and is in the primary sequence; one whose linear attribute is \<open>no\<close>, or any
  value other than \<open>yes\<close>, keeps that value and is in the auxiliary sequence only.
\<close>

theorem parse_spine_linear_classification:
  assumes "fromstring lib opf_data = Inr root" and "find_el root (opf ''spine'') = Some sp"
    and "parse_spine lib opf_data manifest_items = Inr result"
  shows "primary_content result =
           filter is_primary (map spine_entry (findall sp (opf ''itemref''))) \<and>
         auxiliary_content result =
           filter (\<lambda>e. \<not> is_primary e) (map spine_entry (findall sp (opf ''itemref''))) \<and>
         (\<forall>r \<in> set (findall sp (opf ''itemref'')).
            (get r ''linear'' = None \<longrightarrow>
               linear (spine_entry r) = ''yes'' \<and> spine_entry r \<in> set (primary_content result)) \<and>
            (\<forall>l. get r ''linear'' = Some l \<and> l \<noteq> ''yes'' \<longrightarrow>
               linear (spine_entry r) = l \<and> spine_entry r \<in> set (auxiliary_content result) \<and>
               spine_entry r \<notin> set (primary_content result)))"
proof -
  from spine_loop_result [OF parse_spine_Inr [OF assms]]
  have p: "primary_content result =
             filter is_primary (map spine_entry (findall sp (opf ''itemref'')))"
    and a: "auxiliary_content result =
             filter (\<lambda>e. \<not> is_primary e) (map spine_entry (findall sp (opf ''itemref'')))"
    by simp_all
  have "\<And>r. get r ''linear'' = None \<Longrightarrow> linear (spine_entry r) = ''yes'' \<and> is_primary (spine_entry r)"
    by (simp add: spine_entry_def is_primary_def)
  moreover have "\<And>r l. get r ''linear'' = Some l \<Longrightarrow> l \<noteq> ''yes'' \<Longrightarrow>
      linear (spine_entry r) = l \<and> \<not> is_primary (spine_entry r)"
    by (simp add: spine_entry_def is_primary_def)
  ultimately show ?thesis
    unfolding p a by auto
qed

lemma parse_spine_all_pass:
  assumes "fromstring lib opf_data = Inr root" and "find_el root (opf ''spine'') = Some sp"
    and "get sp ''toc'' = Some t" and "t \<noteq> []"
    and "itemrefs_pass manifest_items (findall sp (opf ''itemref''))"
  shows "parse_spine lib opf_data manifest_items =
           Inr \<lparr> toc = t,
                 primary_content =
                   filter is_primary (map spine_entry (findall sp (opf ''itemref''))),
                 auxiliary_content =
                   filter (\<lambda>e. \<not> is_primary e)
                     (map spine_entry (findall sp (opf ''itemref''))) \<rparr>"
proof -
  from assms(5) have "spine_loop manifest_items (findall sp (opf ''itemref'')) [] [] {} =
      Inr ([] @ filter is_primary (map spine_entry (findall sp (opf ''itemref''))),
           [] @ filter (\<lambda>e. \<not> is_primary e) (map spine_entry (findall sp (opf ''itemref''))))"
    by (intro spine_loop_pass) (simp_all add: itemrefs_pass_def)
  then show ?thesis
    by (simp add: parse_spine_loop [OF assms(1-4)])
qed

text \<open>
  Claim C10. For a spine whose toc attribute is present and not empty and whose
  itemrefs all pass the idref and content-type checks, \<open>parse_spine\<close> succeeds and
  returns that toc value. Nothing is asked of the toc value: it need not be a key of
  the manifest lookup.
\<close>

theorem parse_spine_toc_unchecked:
  assumes "fromstring lib opf_data = Inr root" and "find_el root (opf ''spine'') = Some sp"
    and "get sp ''toc'' = Some t" and "t \<noteq> []"
    and "itemrefs_pass manifest_items (findall sp (opf ''itemref''))"
  shows "parse_spine lib opf_data manifest_items =
           Inr \<lparr> toc = t,
                 primary_content =
                   filter is_primary (map spine_entry (findall sp (opf ''itemref''))),
                 auxiliary_content =
                   filter (\<lambda>e. \<not> is_primary e)
                     (map spine_entry (findall sp (opf ''itemref''))) \<rparr>"
  using assms by (rule parse_spine_all_pass)



subsection \<open>The example documents\<close>

lemmas example_defs =
  example_library_def package_tree_def scenario_metadata_def item_el_def itemref_el_def
  find_el_def findall_def get_def opf_def dc_def ocf_def

lemmas item_defs =
  rich_items_def chain_items_def chap1_item_def pic_item_def font_item_def tpl_item_def
  page_item_def page2_item_def img_item_def svg_item_def
  rich_itemrefs_def chain_itemrefs_def chap1_ref_def pic_ref_def page_ref_def img_ref_def

lemma rich_fromstring: "fromstring rich_library rich_text = Inr rich_tree"
  by (simp add: rich_library_def example_library_def)

lemma rich_spine:
  "find_el rich_tree (opf ''spine'') =
     Some (Element (opf ''spine'') [(''toc'', ''ncx'')] None rich_itemrefs)"
  by (simp add: rich_tree_def example_defs)

lemma rich_toc:
  "get (Element (opf ''spine'') [(''toc'', ''ncx'')] None rich_itemrefs) ''toc'' = Some ''ncx''"
  by (simp add: get_def)

lemma rich_findall:
  "findall (Element (opf ''spine'') [(''toc'', ''ncx'')] None rich_itemrefs) (opf ''itemref'') =
     rich_itemrefs"
  by (simp add: item_defs example_defs)

lemma rich_lookup_ncx: "lookup_of rich_items ''ncx'' = None"
  by (simp add: lookup_of_def item_defs item_data_of_def item_el_def get_def)

lemma rich_pass: "itemrefs_pass (lookup_of rich_items) rich_itemrefs"
  by (simp add: itemrefs_pass_def itemref_passes_def idrefs_of_def item_defs
      itemref_el_def get_def lookup_of_def item_data_of_def item_el_def
      eligible_def fallback_eligible_def OPS_CONTENT_TYPES_def)

lemma rich_pass_findall:
  "itemrefs_pass (lookup_of rich_items)
     (findall (Element (opf ''spine'') [(''toc'', ''ncx'')] None rich_itemrefs) (opf ''itemref''))"
  unfolding rich_findall by (rule rich_pass)

lemma rich_entries:
  "filter is_primary (map spine_entry rich_itemrefs) =
     [\<lparr> idref = ''chap1'', linear = ''yes'' \<rparr>, \<lparr> idref = ''page'', linear = ''yes'' \<rparr>]"
  "filter (\<lambda>e. \<not> is_primary e) (map spine_entry rich_itemrefs) =
     [\<lparr> idref = ''pic'', linear = ''no'' \<rparr>]"
  by (simp_all add: item_defs itemref_el_def spine_entry_def is_primary_def get_def)

lemma rich_parse_spine:
  "parse_spine rich_library rich_text (lookup_of rich_items) =
     Inr \<lparr> toc = ''ncx'',
           primary_content =
             [\<lparr> idref = ''chap1'', linear = ''yes'' \<rparr>, \<lparr> idref = ''page'', linear = ''yes'' \<rparr>],
           auxiliary_content = [\<lparr> idref = ''pic'', linear = ''no'' \<rparr>] \<rparr>"
  using parse_spine_all_pass [OF rich_fromstring rich_spine rich_toc _ rich_pass_findall]
  by (simp add: rich_findall rich_entries)

text \<open>
  The spine of the example: no linear attribute, \<open>no\<close>, and \<open>yes\<close>.
\<close>

theorem parse_spine_linear_classification_witness:
  "fromstring rich_library rich_text = Inr rich_tree \<and>
   find_el rich_tree (opf ''spine'') =
     Some (Element (opf ''spine'') [(''toc'', ''ncx'')] None rich_itemrefs) \<and>
   parse_spine rich_library rich_text (lookup_of rich_items) =
     Inr \<lparr> toc = ''ncx'',
           primary_content =
             [\<lparr> idref = ''chap1'', linear = ''yes'' \<rparr>, \<lparr> idref = ''page'', linear = ''yes'' \<rparr>],
           auxiliary_content = [\<lparr> idref = ''pic'', linear = ''no'' \<rparr>] \<rparr> \<and>
   filter is_primary (map spine_entry rich_itemrefs) =
     [\<lparr> idref = ''chap1'', linear = ''yes'' \<rparr>, \<lparr> idref = ''page'', linear = ''yes'' \<rparr>] \<and>
   filter (\<lambda>e. \<not> is_primary e) (map spine_entry rich_itemrefs) =
     [\<lparr> idref = ''pic'', linear = ''no'' \<rparr>]"
proof -
  note c = parse_spine_linear_classification [OF rich_fromstring rich_spine rich_parse_spine]
  from c [THEN conjunct1] c [THEN conjunct2, THEN conjunct1]
  have "filter is_primary (map spine_entry rich_itemrefs) =
      [\<lparr> idref = ''chap1'', linear = ''yes'' \<rparr>, \<lparr> idref = ''page'', linear = ''yes'' \<rparr>]"
    and "filter (\<lambda>e. \<not> is_primary e) (map spine_entry rich_itemrefs) =
      [\<lparr> idref = ''pic'', linear = ''no'' \<rparr>]"
    by (simp_all add: rich_findall)
  with rich_fromstring rich_spine rich_parse_spine show ?thesis by simp
qed

text \<open>
  In the example the toc is \<open>ncx\<close>, and the manifest has no item of that id.
\<close>

theorem parse_spine_toc_unchecked_witness:
  "fromstring rich_library rich_text = Inr rich_tree \<and>
   find_el rich_tree (opf ''spine'') =
     Some (Element (opf ''spine'') [(''toc'', ''ncx'')] None rich_itemrefs) \<and>
   itemrefs_pass (lookup_of rich_items) rich_itemrefs \<and>
   lookup_of rich_items ''ncx'' = None \<and>
   parse_spine rich_library rich_text (lookup_of rich_items) =
     Inr \<lparr> toc = ''ncx'',
           primary_content =
             [\<lparr> idref = ''chap1'', linear = ''yes'' \<rparr>, \<lparr> idref = ''page'', linear = ''yes'' \<rparr>],
           auxiliary_content = [\<lparr> idref = ''pic'', linear = ''no'' \<rparr>] \<rparr>"
  using parse_spine_toc_unchecked
      [OF rich_fromstring rich_spine rich_toc _ rich_pass_findall]
    rich_fromstring rich_spine rich_pass rich_lookup_ncx
  by (simp add: rich_findall rich_entries)













section \<open>The Manifest Parser\<close>

lemma manifest_loop_Cons:
  "manifest_loop known sugg (item # rest) info hrefs log =
     (case item_error hrefs item of
        Some e \<Rightarrow> (Inl (ValueError e), log)
      | None \<Rightarrow>
          manifest_loop known sugg rest (info @ [item_data_of item]) (hrefs_after hrefs [item])
            (log @ map (advisory_warning sugg) (filter (unrecognized known) [item])))"
proof (cases "item_error hrefs item")
  case (Some e)
  then show ?thesis
    by (auto simp add: item_error_def item_data_of_def falsy_def get_default_def
        split: option.splits if_splits)
next
  case None
  then obtain i h mt where "get item ''id'' = Some i" "i \<noteq> []" "get item ''href'' = Some h"
    "h \<noteq> []" "get item ''media-type'' = Some mt" "mt \<noteq> []" "h \<notin> hrefs"
    by (auto simp add: item_error_def falsy_def get_default_def split: option.splits if_splits)
  moreover from this have "hrefs_after hrefs [item] = insert h hrefs"
    by (auto simp add: hrefs_after_def hrefs_of_def)
  ultimately show ?thesis
    using None
    by (auto simp add: item_data_of_def media_type_warnings_def advisory_warning_def
        unrecognized_def dict_get_def get_default_def split: option.splits)
qed

declare manifest_loop.simps(2) [simp del]

lemma item_complete_error:
  "item_complete item \<Longrightarrow>
     item_error hrefs item =
       (if get_default item ''href'' [] \<in> hrefs
        then Some (DuplicateHref (get_default item ''href'' [])) else None)"
  by (simp add: item_complete_def item_error_def)

lemma item_complete_href:
  "item_complete item \<Longrightarrow> get item ''href'' = Some (get_default item ''href'' [])"
  by (auto simp add: item_complete_def falsy_def get_default_def split: option.splits)

lemma manifest_loop_pass:
  "list_all item_complete items \<Longrightarrow> distinct (hrefs_of items) \<Longrightarrow>
   (\<forall>h \<in> hrefs. Some h \<notin> set (hrefs_of items)) \<Longrightarrow>
   manifest_loop known sugg items info hrefs log =
     (Inr (info @ map item_data_of items),
      log @ map (advisory_warning sugg) (filter (unrecognized known) items))"
proof (induction items arbitrary: info hrefs log)
  case Nil
  then show ?case by simp
next
  case (Cons item items)
  have complete: "item_complete item" using Cons.prems(1) by simp
  have "get_default item ''href'' [] \<notin> hrefs"
    using Cons.prems(3) item_complete_href [OF complete] by (auto simp add: hrefs_of_def)
  then have ok: "item_error hrefs item = None"
    by (simp add: item_complete_error [OF complete])
  have rest: "list_all item_complete items" "distinct (hrefs_of items)"
    "\<forall>h \<in> hrefs_after hrefs [item]. Some h \<notin> set (hrefs_of items)"
    using Cons.prems by (auto simp add: hrefs_of_def hrefs_after_def)
  show ?case
    by (simp add: manifest_loop_Cons ok Cons.IH [OF rest])
qed

lemma manifest_loop_duplicate:
  "list_all item_complete items \<Longrightarrow>
   \<not> distinct (hrefs_of items) \<or> (\<exists>h \<in> hrefs. Some h \<in> set (hrefs_of items)) \<Longrightarrow>
   \<exists>h. fst (manifest_loop known sugg items info hrefs log) = Inl (ValueError (DuplicateHref h))
       \<and> Some h \<in> set (hrefs_of items)"
proof (induction items arbitrary: info hrefs log)
  case Nil
  then show ?case by (simp add: hrefs_of_def)
next
  case (Cons item items)
  have complete: "item_complete item" using Cons.prems(1) by simp
  note href = item_complete_href [OF complete]
  show ?case
  proof (cases "get_default item ''href'' [] \<in> hrefs")
    case True
    then show ?thesis
      using href by (simp add: manifest_loop_Cons item_complete_error [OF complete] hrefs_of_def)
  next
    case False
    then have ok: "item_error hrefs item = None"
      by (simp add: item_complete_error [OF complete])
    have "\<not> distinct (hrefs_of items) \<or>
        (\<exists>h \<in> hrefs_after hrefs [item]. Some h \<in> set (hrefs_of items))"
      using Cons.prems(2) False href by (auto simp add: hrefs_of_def hrefs_after_def)
    moreover have "list_all item_complete items" using Cons.prems(1) by simp
    ultimately obtain h where
      "fst (manifest_loop known sugg items (info @ [item_data_of item]) (hrefs_after hrefs [item])
         (log @ map (advisory_warning sugg) (filter (unrecognized known) [item])))
       = Inl (ValueError (DuplicateHref h))" "Some h \<in> set (hrefs_of items)"
      using Cons.IH by blast
    then show ?thesis
      by (auto simp add: manifest_loop_Cons ok hrefs_of_def)
  qed
qed

lemma parse_manifest_loop:
  assumes "fromstring lib opf_data = Inr root" "find_el root (opf ''manifest'') = Some mf"
  shows "parse_manifest lib opf_data known suggested =
           manifest_loop known suggested (findall mf (opf ''item'')) [] {} []"
  using assms by (simp add: parse_manifest_def)

text \<open>
  Claim C5. For a manifest whose items all carry id, href and media-type: when two
  items share an href, \<open>parse_manifest\<close> fails with the duplicate-href error, of kind
  DuplicateKeyError, for an href of the manifest; when no two items share an href, it
  returns all items, and nothing is asked of the ids, which may repeat.
\<close>

theorem parse_manifest_duplicate_href:
  assumes "fromstring lib opf_data = Inr root"
    and "find_el root (opf ''manifest'') = Some mf"
    and "list_all item_complete (findall mf (opf ''item''))"
  shows "(\<not> distinct (hrefs_of (findall mf (opf ''item''))) \<longrightarrow>
            (\<exists>h. fst (parse_manifest lib opf_data known suggested) =
                    Inl (ValueError (DuplicateHref h)) \<and>
                 Some h \<in> set (hrefs_of (findall mf (opf ''item''))) \<and>
                 kind (DuplicateHref h) = DuplicateKeyError)) \<and>
         (distinct (hrefs_of (findall mf (opf ''item''))) \<longrightarrow>
            fst (parse_manifest lib opf_data known suggested) =
              Inr (map item_data_of (findall mf (opf ''item''))))"
proof (cases "distinct (hrefs_of (findall mf (opf ''item'')))")
  case True
  then show ?thesis
    using manifest_loop_pass [OF assms(3) True, of "{}" known suggested "[]" "[]"]
    by (simp add: parse_manifest_loop [OF assms(1,2)])
next
  case False
  then show ?thesis
    using manifest_loop_duplicate [OF assms(3), of "{}" known suggested "[]" "[]"]
    by (simp add: parse_manifest_loop [OF assms(1,2)])
qed

text \<open>
  Claim C9. For a manifest whose items pass the checks of the mandatory attributes and
  of the hrefs, \<open>parse_manifest\<close> does not fail, whatever the media-types are: it
  returns every item, in document order, and the log holds one advisory warning for
  each item whose media-type is not in the recognized set, in document order, and
  nothing else. The warning names the suggested replacement when one is known and
  says that the type is unknown otherwise.
\<close>

theorem parse_manifest_unrecognized_media_type:
  assumes "fromstring lib opf_data = Inr root"
    and "find_el root (opf ''manifest'') = Some mf"
    and "list_all item_complete (findall mf (opf ''item''))"
    and "distinct (hrefs_of (findall mf (opf ''item'')))"
  shows "parse_manifest lib opf_data known suggested =
           (Inr (map item_data_of (findall mf (opf ''item''))),
            map (advisory_warning suggested)
              (filter (unrecognized known) (findall mf (opf ''item''))))"
  using manifest_loop_pass [OF assms(3,4), of "{}" known suggested "[]" "[]"]
  by (simp add: parse_manifest_loop [OF assms(1,2)])

subsection \<open>The example manifests\<close>

lemma rich_manifest:
  "find_el rich_tree (opf ''manifest'') = Some (Element (opf ''manifest'') [] None rich_items)"
  by (simp add: rich_tree_def example_defs)

lemma rich_items_findall:
  "findall (Element (opf ''manifest'') [] None rich_items) (opf ''item'') = rich_items"
  by (simp add: item_defs example_defs)

lemma dup_fromstring: "fromstring dup_library dup_text = Inr dup_tree"
  by (simp add: dup_library_def example_library_def)

lemma dup_manifest:
  "find_el dup_tree (opf ''manifest'') = Some (Element (opf ''manifest'') [] None dup_items)"
  by (simp add: dup_tree_def example_defs)

lemma dup_items_findall:
  "findall (Element (opf ''manifest'') [] None dup_items) (opf ''item'') = dup_items"
  by (simp add: dup_items_def example_defs)

lemmas manifest_defs =
  item_complete_def falsy_def hrefs_of_def ids_of_def item_defs dup_items_def item_el_def get_def

lemma rich_items_facts:
  "list_all item_complete rich_items" "distinct (hrefs_of rich_items)"
  "\<not> distinct (ids_of rich_items)"
  by (simp_all add: manifest_defs)

lemma dup_items_facts:
  "list_all item_complete dup_items" "\<not> distinct (hrefs_of dup_items)"
  "set (hrefs_of dup_items) = {Some ''chap1.xhtml''}"
  by (simp_all add: manifest_defs)

text \<open>
  Two items of one href are rejected; the six items of the other manifest have six
  hrefs and, twice, the id \<open>page\<close>, and are all returned.
\<close>

theorem parse_manifest_duplicate_href_witness:
  "list_all item_complete dup_items \<and> \<not> distinct (hrefs_of dup_items) \<and>
   fst (parse_manifest dup_library dup_text MIME_TYPES SUGGESTED_MIME_TYPES) =
     Inl (ValueError (DuplicateHref ''chap1.xhtml'')) \<and>
   list_all item_complete rich_items \<and> distinct (hrefs_of rich_items) \<and>
   \<not> distinct (ids_of rich_items) \<and>
   fst (parse_manifest rich_library rich_text MIME_TYPES SUGGESTED_MIME_TYPES) =
     Inr (map item_data_of rich_items)"
proof -
  note dup = parse_manifest_duplicate_href [OF dup_fromstring dup_manifest,
      unfolded dup_items_findall, OF dup_items_facts(1), of MIME_TYPES SUGGESTED_MIME_TYPES]
  note rich = parse_manifest_duplicate_href [OF rich_fromstring rich_manifest,
      unfolded rich_items_findall, OF rich_items_facts(1), of MIME_TYPES SUGGESTED_MIME_TYPES]
  from dup [THEN conjunct1] dup_items_facts(2,3)
  have a: "fst (parse_manifest dup_library dup_text MIME_TYPES SUGGESTED_MIME_TYPES) =
      Inl (ValueError (DuplicateHref ''chap1.xhtml''))"
    by auto
  from rich [THEN conjunct2] rich_items_facts(2)
  have b: "fst (parse_manifest rich_library rich_text MIME_TYPES SUGGESTED_MIME_TYPES) =
      Inr (map item_data_of rich_items)"
    by blast
  from a b dup_items_facts(1,2) rich_items_facts show ?thesis by blast
qed

lemma rich_warnings:
  "map (advisory_warning SUGGESTED_MIME_TYPES) (filter (unrecognized MIME_TYPES) rich_items) =
     [DeprecatedMediaType ''application/x-font-ttf'' ''font'' ''application/vnd.ms-opentype'',
      UnknownMediaType ''application/vnd.adobe-page-template+xml'' ''tpl'']"
  by (simp add: advisory_warning_def unrecognized_def MIME_TYPES_def SUGGESTED_MIME_TYPES_def
      get_default_def item_defs item_el_def get_def)

text \<open>
  The font has a deprecated media-type with a suggested replacement, the page template
  a media-type whose suggestion is \<open>None\<close>; both items are returned.
\<close>

theorem parse_manifest_unrecognized_media_type_witness:
  "list_all item_complete rich_items \<and> distinct (hrefs_of rich_items) \<and>
   unrecognized MIME_TYPES font_item \<and> unrecognized MIME_TYPES tpl_item \<and>
   parse_manifest rich_library rich_text MIME_TYPES SUGGESTED_MIME_TYPES =
     (Inr (map item_data_of [chap1_item, pic_item, font_item, tpl_item, page_item, page2_item]),
      [DeprecatedMediaType ''application/x-font-ttf'' ''font'' ''application/vnd.ms-opentype'',
       UnknownMediaType ''application/vnd.adobe-page-template+xml'' ''tpl''])"
proof -
  have u: "unrecognized MIME_TYPES font_item" "unrecognized MIME_TYPES tpl_item"
    by (simp_all add: unrecognized_def MIME_TYPES_def get_default_def item_defs item_el_def
        get_def)
  note rich = parse_manifest_unrecognized_media_type [OF rich_fromstring rich_manifest,
      unfolded rich_items_findall, OF rich_items_facts(1,2), of MIME_TYPES SUGGESTED_MIME_TYPES]
  have "parse_manifest rich_library rich_text MIME_TYPES SUGGESTED_MIME_TYPES =
     (Inr (map item_data_of [chap1_item, pic_item, font_item, tpl_item, page_item, page2_item]),
      [DeprecatedMediaType ''application/x-font-ttf'' ''font'' ''application/vnd.ms-opentype'',
       UnknownMediaType ''application/vnd.adobe-page-template+xml'' ''tpl''])"
    unfolding rich rich_warnings by (simp only: rich_items_def)
  with u rich_items_facts(1,2) show ?thesis by blast
qed

section \<open>The Container Locator\<close>

lemma rootfile_loop_find:
  "rootfile_loop rfs =
     (case first_usable_rootfile rfs of
        None \<Rightarrow> Inl (ValueError NoPackageRootfile)
      | Some r \<Rightarrow> Inr (get_default r ''full-path'' []))"
  by (induction rfs)
    (auto simp add: first_usable_rootfile_def falsy_def get_default_def split: option.splits)

lemma first_usable_rootfile_Some:
  "first_usable_rootfile rfs = Some r \<Longrightarrow>
     \<exists>p. get r ''full-path'' = Some p \<and> p \<noteq> [] \<and> get_default r ''full-path'' [] = p"
  by (auto simp add: first_usable_rootfile_def find_Some_iff falsy_def get_default_def
      split: option.splits)

lemma parse_container_loop:
  assumes "read epub ''META-INF/container.xml'' = Inr raw"
    and "decode_utf8 lib raw = Some container_data"
    and "fromstring lib container_data = Inr root"
    and "find_el root (ocf ''rootfiles'') = Some rootfiles"
  shows "parse_container lib epub = rootfile_loop (findall rootfiles (ocf ''rootfile''))"
  using assms by (simp add: parse_container_def)

lemma cx_read:
  "read cx_epub ''META-INF/container.xml'' = Inr (bytes_of cx_container_text)"
  by (simp add: cx_epub_def example_archive_def ex_mimetype_def stored_member_def
      deflated_member_def read_def getinfo_def NameToInfo_def)

lemma cx_decode: "decode_utf8 cx_library (bytes_of cx_container_text) = Some cx_container_text"
  by (simp add: cx_library_def example_library_def)

lemma cx_fromstring: "fromstring cx_library cx_container_text = Inr cx_container_tree"
  by (simp add: cx_library_def example_library_def)

lemma cx_find: "find_el cx_container_tree (ocf ''rootfiles'') = Some cx_rootfiles"
  by (simp add: cx_container_tree_def cx_rootfiles_def find_el_def)

lemma cx_findall: "findall cx_rootfiles (ocf ''rootfile'') = [cx_rootfile1, cx_rootfile2]"
  by (simp add: cx_rootfiles_def cx_rootfile1_def cx_rootfile2_def findall_def)

lemma cx_first: "first_package_rootfile [cx_rootfile1, cx_rootfile2] = Some cx_rootfile1"
  by (simp add: first_package_rootfile_def cx_rootfile1_def get_def)

lemma cx_usable: "first_usable_rootfile [cx_rootfile1, cx_rootfile2] = Some cx_rootfile2"
  by (simp add: first_usable_rootfile_def cx_rootfile1_def cx_rootfile2_def get_def falsy_def)

lemma cx_paths:
  "get cx_rootfile1 ''full-path'' = Some []"
  "get cx_rootfile2 ''full-path'' = Some ''OEBPS/content.opf''"
  by (simp_all add: cx_rootfile1_def cx_rootfile2_def get_def)

text \<open>
  Claim C6 as it is written fails. In this container the first rootfile child whose
  media-type is the package-document media type has the full-path attribute \<open>''\<close>;
  \<open>parse_container\<close> does not return it but goes on to the second such child.
\<close>

theorem parse_container_first_rootfile_counterexample:
  "find_el cx_container_tree (ocf ''rootfiles'') = Some cx_rootfiles \<and>
   first_package_rootfile (findall cx_rootfiles (ocf ''rootfile'')) = Some cx_rootfile1 \<and>
   get cx_rootfile1 ''full-path'' = Some [] \<and>
   parse_container cx_library cx_epub = Inr ''OEBPS/content.opf''"
proof -
  have "parse_container cx_library cx_epub = Inr ''OEBPS/content.opf''"
    unfolding parse_container_loop [OF cx_read cx_decode cx_fromstring cx_find] cx_findall
    by (simp add: cx_rootfile1_def cx_rootfile2_def get_def)
  with cx_find cx_first cx_paths(1) show ?thesis
    by (simp add: cx_findall)
qed

text \<open>
  Claim C6, amended. For a container document with a namespace-qualified rootfiles
  element, \<open>parse_container\<close> returns the full-path attribute of the first rootfile
  child whose media-type is the package-document media type and whose full-path
  attribute is present and not empty; when there is no such child it fails with the
  error of line 91, of kind ReferenceNotFoundError.
\<close>

theorem parse_container_first_usable_rootfile:
  assumes "read epub ''META-INF/container.xml'' = Inr raw"
    and "decode_utf8 lib raw = Some container_data"
    and "fromstring lib container_data = Inr root"
    and "find_el root (ocf ''rootfiles'') = Some rootfiles"
  shows "case first_usable_rootfile (findall rootfiles (ocf ''rootfile'')) of
           None \<Rightarrow>
             parse_container lib epub = Inl (ValueError NoPackageRootfile) \<and>
             kind NoPackageRootfile = ReferenceNotFoundError
         | Some r \<Rightarrow>
             (\<exists>p. get r ''full-path'' = Some p \<and> p \<noteq> [] \<and> parse_container lib epub = Inr p)"
proof (cases "first_usable_rootfile (findall rootfiles (ocf ''rootfile''))")
  case None
  then show ?thesis
    by (simp add: parse_container_loop [OF assms] rootfile_loop_find)
next
  case (Some r)
  from first_usable_rootfile_Some [OF this] Some show ?thesis
    by (auto simp add: parse_container_loop [OF assms] rootfile_loop_find)
qed

text \<open>
  In the same container the first usable rootfile is the second child.
\<close>

theorem parse_container_first_usable_rootfile_witness:
  "read cx_epub ''META-INF/container.xml'' = Inr (bytes_of cx_container_text) \<and>
   decode_utf8 cx_library (bytes_of cx_container_text) = Some cx_container_text \<and>
   fromstring cx_library cx_container_text = Inr cx_container_tree \<and>
   find_el cx_container_tree (ocf ''rootfiles'') = Some cx_rootfiles \<and>
   first_usable_rootfile (findall cx_rootfiles (ocf ''rootfile'')) = Some cx_rootfile2 \<and>
   get cx_rootfile2 ''full-path'' = Some ''OEBPS/content.opf'' \<and>
   parse_container cx_library cx_epub = Inr ''OEBPS/content.opf''"
proof -
  from parse_container_first_usable_rootfile [OF cx_read cx_decode cx_fromstring cx_find]
  have "parse_container cx_library cx_epub = Inr ''OEBPS/content.opf''"
    by (simp add: cx_findall cx_usable cx_paths)
  with cx_read cx_decode cx_fromstring cx_find cx_usable cx_paths(2) show ?thesis
    by (simp add: cx_findall)
qed

section \<open>The Metadata Extractor\<close>

lemma truthy_ids:
  "set (map (\<lambda>item. the (identifier_id item))
          (filter (\<lambda>item. \<not> falsy (identifier_id item))
             (map (\<lambda>e. \<lparr> identifier_id = get e ''id'', identifier_scheme = get e sch,
                            identifier_value = etext e \<rparr>) es))) =
     {i. Some i \<in> set (map (\<lambda>e. get e ''id'') es)} - {[]}"
proof (induction es)
  case Nil
  then show ?case by simp
next
  case (Cons e es)
  show ?case
  proof (cases "get e ''id''")
    case None
    with Cons show ?thesis by (auto simp add: falsy_def)
  next
    case (Some i)
    with Cons show ?thesis by (cases "i = []") (auto simp add: falsy_def)
  qed
qed

lemma identifier_ids_declared:
  "identifier_ids (extract_metadata md) = declared_identifier_ids md - {[]}"
  by (simp only: identifier_ids_def extract_metadata_def declared_identifier_ids_def
      truthy_ids metadata_info.simps)

lemma parse_metadata_found:
  assumes "fromstring lib opf_data = Inr root" and "find_el root (opf ''metadata'') = Some md"
  shows "parse_metadata lib opf_data uid =
           (if uid \<in> declared_identifier_ids md - {[]}
            then Inr (MetadataInfo (extract_metadata md))
            else Inl (ValueError (UniqueIdentifierUnmatched uid)))"
  using assms by (simp add: parse_metadata_def identifier_ids_declared)

lemma parse_metadata_parse_error:
  "fromstring lib opf_data = Inl msg \<Longrightarrow>
     parse_metadata lib opf_data uid =
       Inr (ErrorText (''Error: Failed to parse OPF metadata section: '' @ msg))"
  by (simp add: parse_metadata_def)

lemma parse_package_read:
  assumes "read epub path = Inr raw" and "decode_utf8 lib raw = Some opf_data"
  shows "parse_package lib epub path =
     (case parse_package_identity lib opf_data of
        Inl e \<Rightarrow> Inl e
      | Inr (v, u) \<Rightarrow>
          (case parse_metadata lib opf_data u of
             Inl e \<Rightarrow> Inl e
           | Inr md \<Rightarrow>
               (case fst (parse_manifest lib opf_data MIME_TYPES SUGGESTED_MIME_TYPES) of
                  Inl e \<Rightarrow> Inl e
                | Inr mf \<Rightarrow>
                    (case parse_spine lib opf_data (dict_of_manifest mf Map.empty) of
                       Inl e \<Rightarrow> Inl e
                     | Inr sp \<Rightarrow>
                         (case parse_guide lib opf_data of
                            Inl e \<Rightarrow> Inl e
                          | Inr g \<Rightarrow> Inr None)))))"
  using assms
  by (auto simp add: parse_package_def parse_package_locals_def split: sum.splits prod.splits)

lemma empty_id_fromstring: "fromstring empty_id_library empty_id_text = Inr empty_id_tree"
  by (simp add: empty_id_library_def example_library_def)

lemma empty_id_find_metadata:
  "find_el empty_id_tree (opf ''metadata'') = Some empty_id_metadata"
  by (simp add: empty_id_tree_def empty_id_metadata_def find_el_def)

lemma empty_id_ids: "declared_identifier_ids empty_id_metadata = {[]}"
  by (auto simp add: declared_identifier_ids_def empty_id_metadata_def findall_def get_def
      dc_def)

text \<open>
  Claim C4 as it is written fails. The one \<open>dc:identifier\<close> of this document declares
  the id \<open>''\<close>; for the key \<open>''\<close>, which is among the declared ids, \<open>parse_metadata\<close>
  raises the error of line 163.
\<close>

theorem parse_metadata_empty_key_counterexample:
  "fromstring empty_id_library empty_id_text = Inr empty_id_tree \<and>
   find_el empty_id_tree (opf ''metadata'') = Some empty_id_metadata \<and>
   [] \<in> declared_identifier_ids empty_id_metadata \<and>
   parse_metadata empty_id_library empty_id_text [] =
     Inl (ValueError (UniqueIdentifierUnmatched []))"
  by (simp add: empty_id_fromstring empty_id_find_metadata empty_id_ids
      parse_metadata_found [OF empty_id_fromstring empty_id_find_metadata])

text \<open>
  Claim C4, amended. For a package document with a metadata element and any
  unique-identifier key, \<open>parse_metadata\<close> fails if and only if the key is not among
  the ids, other than the empty one, of the declared \<open>dc:identifier\<close> elements, and
  then with the error of line 163, of kind ReferenceNotFoundError. In
  \<open>parse_package\<close>, once the identity stage has returned the key, this failure is the
  outcome whatever the manifest and the spine of the document are.
\<close>

theorem parse_metadata_unique_identifier:
  assumes "fromstring lib opf_data = Inr root" and "find_el root (opf ''metadata'') = Some md"
  shows "((\<exists>e. parse_metadata lib opf_data uid = Inl e) =
            (uid \<notin> declared_identifier_ids md - {[]})) \<and>
         (uid \<notin> declared_identifier_ids md - {[]} \<longrightarrow>
            parse_metadata lib opf_data uid = Inl (ValueError (UniqueIdentifierUnmatched uid)) \<and>
            kind (UniqueIdentifierUnmatched uid) = ReferenceNotFoundError) \<and>
         (\<forall>epub path raw v.
            read epub path = Inr raw \<and> decode_utf8 lib raw = Some opf_data \<and>
            parse_package_identity lib opf_data = Inr (v, uid) \<and>
            uid \<notin> declared_identifier_ids md - {[]} \<longrightarrow>
              parse_package lib epub path = Inl (ValueError (UniqueIdentifierUnmatched uid)))"
proof -
  note md = parse_metadata_found [OF assms(1,2), of uid]
  have a: "(\<exists>e. parse_metadata lib opf_data uid = Inl e) =
      (uid \<notin> declared_identifier_ids md - {[]})"
    by (simp add: md)
  have b: "parse_metadata lib opf_data uid = Inl (ValueError (UniqueIdentifierUnmatched uid))"
    if "uid \<notin> declared_identifier_ids md - {[]}"
    using that by (simp add: md)
  have c: "parse_package lib epub path = Inl (ValueError (UniqueIdentifierUnmatched uid))"
    if "read epub path = Inr raw" "decode_utf8 lib raw = Some opf_data"
      "parse_package_identity lib opf_data = Inr (v, uid)"
      "uid \<notin> declared_identifier_ids md - {[]}"
    for epub path raw v
    using that(3) b [OF that(4)] by (simp add: parse_package_read [OF that(1,2)])
  from a b c show ?thesis by auto
qed

subsection \<open>The scenario of section 8\<close>

lemma scenario_read:
  "read (scenario_epub uid) ''OEBPS/content.opf'' = Inr (bytes_of (scenario_text uid))"
  by (simp add: scenario_epub_def example_archive_def ex_mimetype_def stored_member_def
      deflated_member_def read_def getinfo_def NameToInfo_def)

lemma scenario_decode:
  "decode_utf8 (scenario_library uid) (bytes_of (scenario_text uid)) = Some (scenario_text uid)"
  by (simp add: scenario_library_def example_library_def)

lemma scenario_fromstring:
  "fromstring (scenario_library uid) (scenario_text uid) = Inr (scenario_tree uid)"
  by (simp add: scenario_library_def example_library_def)

lemma scenario_find_metadata:
  "find_el (scenario_tree uid) (opf ''metadata'') = Some scenario_metadata"
  by (simp add: scenario_tree_def scenario_metadata_def find_el_def)

lemma scenario_ids: "declared_identifier_ids scenario_metadata = {''BookId''}"
  by (auto simp add: declared_identifier_ids_def scenario_metadata_def findall_def get_def dc_def)

lemma scenario_identity:
  "uid \<noteq> [] \<Longrightarrow> parse_package_identity (scenario_library uid) (scenario_text uid) = Inr (''3.0'', uid)"
  by (simp add: parse_package_identity_def scenario_fromstring scenario_tree_def get_def opf_def)

text \<open>
  The negative scenario of section 8: the key \<open>BookId2\<close> against the one identifier id
  \<open>BookId\<close>.
\<close>

theorem parse_metadata_unique_identifier_witness:
  "fromstring (scenario_library ''BookId2'') (scenario_text ''BookId2'') =
     Inr (scenario_tree ''BookId2'') \<and>
   find_el (scenario_tree ''BookId2'') (opf ''metadata'') = Some scenario_metadata \<and>
   ''BookId2'' \<notin> declared_identifier_ids scenario_metadata - {[]} \<and>
   ''BookId'' \<in> declared_identifier_ids scenario_metadata - {[]} \<and>
   parse_metadata (scenario_library ''BookId2'') (scenario_text ''BookId2'') ''BookId2'' =
     Inl (ValueError (UniqueIdentifierUnmatched ''BookId2'')) \<and>
   (\<forall>e. parse_metadata (scenario_library ''BookId2'') (scenario_text ''BookId2'') ''BookId''
      \<noteq> Inl e) \<and>
   parse_package_identity (scenario_library ''BookId2'') (scenario_text ''BookId2'') =
     Inr (''3.0'', ''BookId2'') \<and>
   parse_package (scenario_library ''BookId2'') (scenario_epub ''BookId2'') ''OEBPS/content.opf'' =
     Inl (ValueError (UniqueIdentifierUnmatched ''BookId2''))"
proof -
  have ne: "''BookId2'' \<noteq> []" by simp
  note t2 = parse_metadata_unique_identifier
    [OF scenario_fromstring scenario_find_metadata, of "''BookId2''"]
  note t1 = parse_metadata_unique_identifier
    [OF scenario_fromstring [of "''BookId2''"] scenario_find_metadata, of "''BookId''"]
  have ids: "''BookId2'' \<notin> declared_identifier_ids scenario_metadata - {[]}"
    "''BookId'' \<in> declared_identifier_ids scenario_metadata - {[]}"
    by (simp_all add: scenario_ids)
  from t2 [THEN conjunct2, THEN conjunct1] ids(1)
  have a: "parse_metadata (scenario_library ''BookId2'') (scenario_text ''BookId2'') ''BookId2'' =
     Inl (ValueError (UniqueIdentifierUnmatched ''BookId2''))"
    by blast
  from t1 [THEN conjunct1] ids(2)
  have b: "\<forall>e. parse_metadata (scenario_library ''BookId2'') (scenario_text ''BookId2'') ''BookId''
      \<noteq> Inl e"
    by blast
  from t2 [THEN conjunct2, THEN conjunct2] scenario_read scenario_decode
    scenario_identity [OF ne] ids(1)
  have c: "parse_package (scenario_library ''BookId2'') (scenario_epub ''BookId2'')
      ''OEBPS/content.opf'' = Inl (ValueError (UniqueIdentifierUnmatched ''BookId2''))"
    by blast
  from a b c ids scenario_fromstring scenario_find_metadata scenario_identity [OF ne]
  show ?thesis by blast
qed

text \<open>
  Claim C7. A text that is not well-formed XML: \<open>ET.fromstring\<close> raises ParseError on it.
  \<open>parse_metadata\<close> then returns a \<open>str\<close>, an ordinary value, where \<open>parse_manifest\<close> on the
  same text raises.
\<close>

theorem parse_metadata_malformed_returns_text:
  "fromstring (scenario_library ''BookId'') ''<package'' = Inl ''unclosed token: line 1, column 0'' \<and>
   parse_metadata (scenario_library ''BookId'') ''<package'' ''BookId'' =
     Inr (ErrorText
       ''Error: Failed to parse OPF metadata section: unclosed token: line 1, column 0'') \<and>
   fst (parse_manifest (scenario_library ''BookId'') ''<package'' MIME_TYPES SUGGESTED_MIME_TYPES) =
     Inl (ValueError (ManifestParseError ''unclosed token: line 1, column 0'')) \<and>
   parse_spine (scenario_library ''BookId'') ''<package'' Map.empty =
     Inl (ValueError (SpineParseError ''unclosed token: line 1, column 0''))"
proof -
  have f: "fromstring (scenario_library ''BookId'') ''<package'' =
      Inl ''unclosed token: line 1, column 0''"
    by (simp add: scenario_library_def example_library_def scenario_text_def)
  show ?thesis
    by (simp add: f parse_metadata_parse_error [OF f] parse_manifest_def parse_spine_def)
qed


section \<open>The Package Orchestrator\<close>

lemma scenario_metadata_stage:
  "parse_metadata (scenario_library ''BookId'') (scenario_text ''BookId'') ''BookId'' =
     Inr (MetadataInfo (extract_metadata scenario_metadata))"
  by (simp add: parse_metadata_found [OF scenario_fromstring scenario_find_metadata]
      scenario_ids)

lemma scenario_find_manifest:
  "find_el (scenario_tree uid) (opf ''manifest'') =
     Some (Element (opf ''manifest'') [] None [chap1_item])"
  by (simp add: scenario_tree_def scenario_metadata_def find_el_def opf_def)

lemma scenario_find_spine:
  "find_el (scenario_tree uid) (opf ''spine'') =
     Some (Element (opf ''spine'') [(''toc'', ''ncx'')] None [chap1_ref])"
  by (simp add: scenario_tree_def scenario_metadata_def find_el_def opf_def)

lemma scenario_find_guide: "find_el (scenario_tree uid) (opf ''guide'') = None"
  by (simp add: scenario_tree_def scenario_metadata_def find_el_def opf_def)

lemma scenario_manifest_stage:
  "fst (parse_manifest (scenario_library uid) (scenario_text uid) MIME_TYPES
     SUGGESTED_MIME_TYPES) = Inr [item_data_of chap1_item]"
proof -
  have items: "findall (Element (opf ''manifest'') [] None [chap1_item]) (opf ''item'') =
      [chap1_item]"
    by (simp add: findall_def chap1_item_def item_el_def)
  have "list_all item_complete [chap1_item]" "distinct (hrefs_of [chap1_item])"
    "\<forall>h \<in> {}. Some h \<notin> set (hrefs_of [chap1_item])"
    by (simp_all add: item_complete_def falsy_def hrefs_of_def chap1_item_def item_el_def get_def)
  from manifest_loop_pass [OF this, of MIME_TYPES SUGGESTED_MIME_TYPES "[]" "[]"]
  show ?thesis
    by (simp add: parse_manifest_loop [OF scenario_fromstring scenario_find_manifest] items)
qed

lemma scenario_spine_stage:
  "parse_spine (scenario_library uid) (scenario_text uid)
     (dict_of_manifest [item_data_of chap1_item] Map.empty) =
     Inr \<lparr> toc = ''ncx'', primary_content = [\<lparr> idref = ''chap1'', linear = ''yes'' \<rparr>],
           auxiliary_content = [] \<rparr>"
proof -
  have refs: "findall (Element (opf ''spine'') [(''toc'', ''ncx'')] None [chap1_ref])
      (opf ''itemref'') = [chap1_ref]"
    by (simp add: findall_def chap1_ref_def itemref_el_def)
  have toc: "get (Element (opf ''spine'') [(''toc'', ''ncx'')] None [chap1_ref]) ''toc'' =
      Some ''ncx''" "''ncx'' \<noteq> []"
    by (simp_all add: get_def)
  have "itemrefs_pass (dict_of_manifest [item_data_of chap1_item] Map.empty) [chap1_ref]"
    by (simp add: itemrefs_pass_def itemref_passes_def idrefs_of_def chap1_ref_def
        chap1_item_def itemref_el_def item_el_def item_data_of_def get_def eligible_def
        OPS_CONTENT_TYPES_def)
  then have "itemrefs_pass (dict_of_manifest [item_data_of chap1_item] Map.empty)
      (findall (Element (opf ''spine'') [(''toc'', ''ncx'')] None [chap1_ref]) (opf ''itemref''))"
    by (simp only: refs)
  note result = parse_spine_all_pass [OF scenario_fromstring scenario_find_spine toc this]
  have entries: "filter is_primary (map spine_entry [chap1_ref]) =
      [\<lparr> idref = ''chap1'', linear = ''yes'' \<rparr>]"
    "filter (\<lambda>e. \<not> is_primary e) (map spine_entry [chap1_ref]) = []"
    by (simp_all add: spine_entry_def is_primary_def chap1_ref_def itemref_el_def get_def)
  show ?thesis
    by (simp only: result refs entries)
qed

lemma scenario_guide_stage: "parse_guide (scenario_library uid) (scenario_text uid) = Inr []"
  by (simp add: parse_guide_def scenario_fromstring scenario_find_guide)

lemma scenario_package:
  "parse_package (scenario_library ''BookId'') (scenario_epub ''BookId'') ''OEBPS/content.opf'' =
     Inr None"
proof -
  have "''BookId'' \<noteq> []" by simp
  note identity = scenario_identity [OF this]
  show ?thesis
    by (simp only: parse_package_read [OF scenario_read scenario_decode] identity
        scenario_metadata_stage scenario_manifest_stage scenario_spine_stage
        scenario_guide_stage sum.case prod.case)
qed

text \<open>
  Claim C2 as it is written fails. On the archive of the end-to-end scenario all five
  stages return, and \<open>parse_package\<close> returns \<open>None\<close>, not an aggregate of their
  results.
\<close>

theorem parse_package_returns_document_counterexample:
  "parse_package_identity (scenario_library ''BookId'') (scenario_text ''BookId'') =
     Inr (''3.0'', ''BookId'') \<and>
   parse_metadata (scenario_library ''BookId'') (scenario_text ''BookId'') ''BookId'' =
     Inr (MetadataInfo (extract_metadata scenario_metadata)) \<and>
   fst (parse_manifest (scenario_library ''BookId'') (scenario_text ''BookId'') MIME_TYPES
     SUGGESTED_MIME_TYPES) = Inr [item_data_of chap1_item] \<and>
   parse_spine (scenario_library ''BookId'') (scenario_text ''BookId'')
     (dict_of_manifest [item_data_of chap1_item] Map.empty) =
     Inr \<lparr> toc = ''ncx'', primary_content = [\<lparr> idref = ''chap1'', linear = ''yes'' \<rparr>],
           auxiliary_content = [] \<rparr> \<and>
   parse_guide (scenario_library ''BookId'') (scenario_text ''BookId'') = Inr [] \<and>
   parse_package (scenario_library ''BookId'') (scenario_epub ''BookId'') ''OEBPS/content.opf'' =
     Inr None"
proof -
  have "''BookId'' \<noteq> []" by simp
  note identity = scenario_identity [OF this]
  show ?thesis
    by (simp only: identity scenario_metadata_stage scenario_manifest_stage
        scenario_spine_stage scenario_guide_stage scenario_package simp_thms)
qed

text \<open>
  Claim C2, amended. For an archive whose package-document path resolves and decodes:
  when the five stages return, \<open>parse_package\<close> returns \<open>None\<close>; when a stage raises,
  the stages before it having returned, \<open>parse_package\<close> raises that same exception;
  and in no case does it return a document, partial or whole.
\<close>

theorem parse_package_returns_none:
  assumes "read epub path = Inr raw" and "decode_utf8 lib raw = Some opf_data"
  shows "(\<forall>v u md mf sp g.
            parse_package_identity lib opf_data = Inr (v, u) \<and>
            parse_metadata lib opf_data u = Inr md \<and>
            fst (parse_manifest lib opf_data MIME_TYPES SUGGESTED_MIME_TYPES) = Inr mf \<and>
            parse_spine lib opf_data (dict_of_manifest mf Map.empty) = Inr sp \<and>
            parse_guide lib opf_data = Inr g \<longrightarrow>
              parse_package lib epub path = Inr None) \<and>
         (\<forall>e. parse_package_identity lib opf_data = Inl e \<longrightarrow>
              parse_package lib epub path = Inl e) \<and>
         (\<forall>v u e.
            parse_package_identity lib opf_data = Inr (v, u) \<and>
            parse_metadata lib opf_data u = Inl e \<longrightarrow>
              parse_package lib epub path = Inl e) \<and>
         (\<forall>v u md e.
            parse_package_identity lib opf_data = Inr (v, u) \<and>
            parse_metadata lib opf_data u = Inr md \<and>
            fst (parse_manifest lib opf_data MIME_TYPES SUGGESTED_MIME_TYPES) = Inl e \<longrightarrow>
              parse_package lib epub path = Inl e) \<and>
         (\<forall>v u md mf e.
            parse_package_identity lib opf_data = Inr (v, u) \<and>
            parse_metadata lib opf_data u = Inr md \<and>
            fst (parse_manifest lib opf_data MIME_TYPES SUGGESTED_MIME_TYPES) = Inr mf \<and>
            parse_spine lib opf_data (dict_of_manifest mf Map.empty) = Inl e \<longrightarrow>
              parse_package lib epub path = Inl e) \<and>
         (\<forall>v u md mf sp e.
            parse_package_identity lib opf_data = Inr (v, u) \<and>
            parse_metadata lib opf_data u = Inr md \<and>
            fst (parse_manifest lib opf_data MIME_TYPES SUGGESTED_MIME_TYPES) = Inr mf \<and>
            parse_spine lib opf_data (dict_of_manifest mf Map.empty) = Inr sp \<and>
            parse_guide lib opf_data = Inl e \<longrightarrow>
              parse_package lib epub path = Inl e) \<and>
         (\<forall>document. parse_package lib epub path \<noteq> Inr (Some document))"
proof -
  note p = parse_package_read [OF assms]
  have "\<forall>document. parse_package lib epub path \<noteq> Inr (Some document)"
    by (simp add: parse_package_def split: sum.splits)
  then show ?thesis
    unfolding p by simp
qed

text \<open>
  The scenario of section 8 returns \<open>None\<close>; its negative variant raises the error
  of the metadata stage.
\<close>

theorem parse_package_returns_none_witness:
  "read (scenario_epub ''BookId'') ''OEBPS/content.opf'' = Inr (bytes_of (scenario_text ''BookId'')) \<and>
   decode_utf8 (scenario_library ''BookId'') (bytes_of (scenario_text ''BookId'')) =
     Some (scenario_text ''BookId'') \<and>
   parse_package (scenario_library ''BookId'') (scenario_epub ''BookId'') ''OEBPS/content.opf'' =
     Inr None \<and>
   read (scenario_epub ''BookId2'') ''OEBPS/content.opf'' =
     Inr (bytes_of (scenario_text ''BookId2'')) \<and>
   decode_utf8 (scenario_library ''BookId2'') (bytes_of (scenario_text ''BookId2'')) =
     Some (scenario_text ''BookId2'') \<and>
   parse_package_identity (scenario_library ''BookId2'') (scenario_text ''BookId2'') =
     Inr (''3.0'', ''BookId2'') \<and>
   parse_metadata (scenario_library ''BookId2'') (scenario_text ''BookId2'') ''BookId2'' =
     Inl (ValueError (UniqueIdentifierUnmatched ''BookId2'')) \<and>
   parse_package (scenario_library ''BookId2'') (scenario_epub ''BookId2'') ''OEBPS/content.opf'' =
     Inl (ValueError (UniqueIdentifierUnmatched ''BookId2''))"
proof -
  have ne: "''BookId2'' \<noteq> []" "''BookId'' \<noteq> []" by simp_all
  note ok = parse_package_returns_none
    [OF scenario_read [of "''BookId''"] scenario_decode, THEN conjunct1]
  note bad = parse_package_returns_none
    [OF scenario_read [of "''BookId2''"] scenario_decode, THEN conjunct2, THEN conjunct2,
      THEN conjunct1]
  have md: "parse_metadata (scenario_library ''BookId2'') (scenario_text ''BookId2'') ''BookId2'' =
     Inl (ValueError (UniqueIdentifierUnmatched ''BookId2''))"
    by (simp add: parse_metadata_found [OF scenario_fromstring scenario_find_metadata]
        scenario_ids)
  from ok scenario_identity [OF ne(2)] scenario_metadata_stage scenario_manifest_stage
    scenario_spine_stage scenario_guide_stage
  have a: "parse_package (scenario_library ''BookId'') (scenario_epub ''BookId'')
      ''OEBPS/content.opf'' = Inr None"
    by blast
  from bad scenario_identity [OF ne(1)] md
  have b: "parse_package (scenario_library ''BookId2'') (scenario_epub ''BookId2'')
      ''OEBPS/content.opf'' = Inl (ValueError (UniqueIdentifierUnmatched ''BookId2''))"
    by blast
  from a b md scenario_read scenario_decode scenario_identity [OF ne(1)]
  show ?thesis by blast
qed

end
